theory Spec2Isabelle
  imports Main "HOL-Library.Sublist"
begin

section \<open>Redshift metadata mappers: values, rows and dataclass instances\<close>

text \<open>
  The module \<open>odd_collector/adapters/redshift/mappers/metadata.py\<close> merges ordered lists
  of catalog rows into per-object records. A row is a Python tuple of column values; the
  values that occur in catalog rows are modelled as \<open>None\<close>, strings and integers, on
  which Python's \<open>==\<close> is structural equality.
\<close>

datatype pyval = PNone | PStr string | PInt int

datatype error = TypeError | AttributeError | KeyError | IndexError | ParserFailure | ValidationError

type_synonym row = "pyval list"

text \<open>
  An instance of a dataclass is the list of its fields with their values, in declaration
  order, which is also the order of the dictionary that \<open>asdict\<close> returns.
\<close>

type_synonym dataclass = "(string \<times> pyval) list"

definition ebind :: "error + 'a \<Rightarrow> ('a \<Rightarrow> error + 'b) \<Rightarrow> error + 'b" where
  "ebind x f = (case x of Inl e \<Rightarrow> Inl e | Inr a \<Rightarrow> f a)"

text \<open>
  The module \<open>mappers/models.py\<close>, which declares the source record classes, is not part
  of the sources at hand. The classes are parameters of the development: each one is given
  by the list of its field names, in declaration order.
\<close>

record models =
  MetadataColumnBase :: "string list"
  MetadataColumnExternal :: "string list"
  MetadataColumnRedshift :: "string list"
  MetadataTableAll :: "string list"
  MetadataTableBase :: "string list"
  MetadataTableExternal :: "string list"
  MetadataTableInfo :: "string list"
  MetadataTableRedshift :: "string list"
  MetadataSchemaBase :: "string list"
  MetadataSchemaExternal :: "string list"
  MetadataSchemaRedshift :: "string list"

text \<open>
  Modelled from the spec: the constructors of the classes of \<open>mappers/models.py\<close> are
  missing. \<open>Cls(*row)\<close> decodes a tuple by position into the fixed shape of the class;
  a tuple of any other arity raises \<open>TypeError\<close>.
\<close>

definition construct :: "string list \<Rightarrow> row \<Rightarrow> error + dataclass" where
  "construct cls args =
     (if length args = length cls then Inr (zip cls args) else Inl TypeError)"

text \<open>Attribute access \<open>obj.name\<close> on a dataclass instance.\<close>

definition getattr :: "dataclass \<Rightarrow> string \<Rightarrow> error + pyval" where
  "getattr obj name = (case map_of obj name of None \<Rightarrow> Inl AttributeError | Some v \<Rightarrow> Inr v)"

text \<open>
  The condition \<open>aux.a1 == m.k1 and aux.a2 == m.k2 and ...\<close>: the attributes are read from
  left to right and the conjunction stops at the first difference.
\<close>

fun keys_equal :: "dataclass \<Rightarrow> string list \<Rightarrow> pyval list \<Rightarrow> error + bool" where
  "keys_equal aux (a # as) (k # ks) =
     ebind (getattr aux a) (\<lambda>v. if v = k then keys_equal aux as ks else Inr False)"
| "keys_equal aux _ _ = Inr True"

text \<open>
  The block that every aligner repeats for each of its auxiliary lists:
  \<^verbatim>\<open>
  if index < len(rows):
      aux = Cls(*rows[index])
      if aux.a1 == m.k1 and ...:
          m.slot = aux
          index += 1
  \<close>
  The result is the new value of the slot and the new value of the cursor.
\<close>

definition attach ::
  "string list \<Rightarrow> string list \<Rightarrow> row list \<Rightarrow> nat \<Rightarrow> pyval list \<Rightarrow> error + (dataclass option \<times> nat)" where
  "attach cls attrs rows index key =
     (if index < length rows then
        ebind (construct cls (rows ! index)) (\<lambda>aux.
        ebind (keys_equal aux attrs key) (\<lambda>eq.
          if eq then Inr (Some aux, index + 1) else Inr (None, index)))
      else Inr (None, index))"

text \<open>A \<open>for\<close> loop over a list whose body may raise: the first exception ends the loop.\<close>

fun for_each :: "('s \<Rightarrow> 'a \<Rightarrow> error + 's) \<Rightarrow> 'a list \<Rightarrow> 's \<Rightarrow> error + 's" where
  "for_each body [] s = Inr s"
| "for_each body (x # xs) s = ebind (body s x) (for_each body xs)"

section \<open>Merged objects\<close>

record MetadataSchema =
  database_name :: pyval
  schema_name :: pyval
  base :: "dataclass option"
  redshift :: "dataclass option"
  external :: "dataclass option"

record MetadataColumn =
  database_name :: pyval
  schema_name :: pyval
  table_name :: pyval
  column_name :: pyval
  ordinal_position :: pyval
  base :: "dataclass option"
  redshift :: "dataclass option"
  external :: "dataclass option"

record MetadataTable =
  database_name :: pyval
  schema_name :: pyval
  table_name :: pyval
  base :: "dataclass option"
  all :: "dataclass option"
  redshift :: "dataclass option"
  external :: "dataclass option"
  info :: "dataclass option"
  columns :: "MetadataColumn list"
  primary_keys :: "string list"

section \<open>The aligners\<close>

subsection \<open>MetadataSchemas\<close>

text \<open>
  The state of the loop is the list \<open>ms\<close> with the two cursors \<open>redshift_index\<close> and
  \<open>external_index\<close>; the body handles one base row.
\<close>

type_synonym schemas_state = "MetadataSchema list \<times> nat \<times> nat"

definition MetadataSchemas_body ::
  "models \<Rightarrow> row list \<Rightarrow> row list \<Rightarrow> schemas_state \<Rightarrow> row \<Rightarrow> error + schemas_state" where
  "MetadataSchemas_body M schemas_redshift schemas_external st schema =
     (case st of (ms, redshift_index, external_index) \<Rightarrow>
        ebind (construct (MetadataSchemaBase M) schema) (\<lambda>b.
        ebind (getattr b ''database_name'') (\<lambda>db.
        ebind (getattr b ''schema_name'') (\<lambda>sn.
        ebind (attach (MetadataSchemaRedshift M) [''database_name'', ''schema_name'']
                 schemas_redshift redshift_index [db, sn]) (\<lambda>(mredshift, redshift_index').
        ebind (attach (MetadataSchemaExternal M) [''databasename'', ''schemaname'']
                 schemas_external external_index [db, sn]) (\<lambda>(mexternal, external_index').
        Inr (ms @ [\<lparr>MetadataSchema.database_name = db,
                     MetadataSchema.schema_name = sn,
                     MetadataSchema.base = Some b,
                     MetadataSchema.redshift = mredshift,
                     MetadataSchema.external = mexternal\<rparr>],
             redshift_index', external_index')))))))"

definition MetadataSchemas_loop ::
  "models \<Rightarrow> row list \<Rightarrow> row list \<Rightarrow> row list \<Rightarrow> error + schemas_state" where
  "MetadataSchemas_loop M schemas_base schemas_redshift schemas_external =
     for_each (MetadataSchemas_body M schemas_redshift schemas_external) schemas_base ([], 0, 0)"

definition MetadataSchemas ::
  "models \<Rightarrow> row list \<Rightarrow> row list \<Rightarrow> row list \<Rightarrow> error + MetadataSchema list" where
  "MetadataSchemas M schemas_base schemas_redshift schemas_external =
     ebind (MetadataSchemas_loop M schemas_base schemas_redshift schemas_external)
       (\<lambda>(ms, redshift_index, external_index). Inr ms)"

subsection \<open>MetadataTables\<close>

type_synonym tables_state = "MetadataTable list \<times> nat \<times> nat \<times> nat \<times> nat"

definition MetadataTables_body ::
  "models \<Rightarrow> row list \<Rightarrow> row list \<Rightarrow> row list \<Rightarrow> row list \<Rightarrow> tables_state \<Rightarrow> row
     \<Rightarrow> error + tables_state" where
  "MetadataTables_body M tables_all tables_redshift tables_external tables_info st table =
     (case st of (ms, all_index, redshift_index, external_index, info_index) \<Rightarrow>
        ebind (construct (MetadataTableBase M) table) (\<lambda>b.
        ebind (getattr b ''table_catalog'') (\<lambda>db.
        ebind (getattr b ''table_schema'') (\<lambda>sn.
        ebind (getattr b ''table_name'') (\<lambda>tn.
        ebind (attach (MetadataTableAll M) [''database_name'', ''schema_name'', ''table_name'']
                 tables_all all_index [db, sn, tn]) (\<lambda>(mall, all_index').
        ebind (attach (MetadataTableRedshift M) [''database_name'', ''schema_name'', ''table_name'']
                 tables_redshift redshift_index [db, sn, tn]) (\<lambda>(mredshift, redshift_index').
        ebind (attach (MetadataTableExternal M) [''databasename'', ''schemaname'', ''tablename'']
                 tables_external external_index [db, sn, tn]) (\<lambda>(mexternal, external_index').
        ebind (attach (MetadataTableInfo M) [''database'', ''schema'', ''table'']
                 tables_info info_index [db, sn, tn]) (\<lambda>(minfo, info_index').
        Inr (ms @ [\<lparr>MetadataTable.database_name = db,
                     MetadataTable.schema_name = sn,
                     MetadataTable.table_name = tn,
                     MetadataTable.base = Some b,
                     MetadataTable.all = mall,
                     MetadataTable.redshift = mredshift,
                     MetadataTable.external = mexternal,
                     MetadataTable.info = minfo,
                     MetadataTable.columns = [],
                     MetadataTable.primary_keys = []\<rparr>],
             all_index', redshift_index', external_index', info_index'))))))))))"

definition MetadataTables_loop ::
  "models \<Rightarrow> row list \<Rightarrow> row list \<Rightarrow> row list \<Rightarrow> row list \<Rightarrow> row list \<Rightarrow> error + tables_state" where
  "MetadataTables_loop M tables_base tables_all tables_redshift tables_external tables_info =
     for_each (MetadataTables_body M tables_all tables_redshift tables_external tables_info)
       tables_base ([], 0, 0, 0, 0)"

definition MetadataTables ::
  "models \<Rightarrow> row list \<Rightarrow> row list \<Rightarrow> row list \<Rightarrow> row list \<Rightarrow> row list
     \<Rightarrow> error + MetadataTable list" where
  "MetadataTables M tables_base tables_all tables_redshift tables_external tables_info =
     ebind (MetadataTables_loop M tables_base tables_all tables_redshift tables_external tables_info)
       (\<lambda>(ms, all_index, redshift_index, external_index, info_index). Inr ms)"

subsection \<open>MetadataColumns\<close>

text \<open>The base list, the parameter \<open>columns\<close> of the source, is called \<open>columns_base\<close> here.\<close>

type_synonym columns_state = "MetadataColumn list \<times> nat \<times> nat"

definition MetadataColumns_body ::
  "models \<Rightarrow> row list \<Rightarrow> row list \<Rightarrow> columns_state \<Rightarrow> row \<Rightarrow> error + columns_state" where
  "MetadataColumns_body M columns_redshift columns_external st column =
     (case st of (ms, redshift_index, external_index) \<Rightarrow>
        ebind (construct (MetadataColumnBase M) column) (\<lambda>b.
        ebind (getattr b ''database_name'') (\<lambda>db.
        ebind (getattr b ''schema_name'') (\<lambda>sn.
        ebind (getattr b ''table_name'') (\<lambda>tn.
        ebind (getattr b ''column_name'') (\<lambda>cn.
        ebind (getattr b ''ordinal_position'') (\<lambda>pos.
        ebind (attach (MetadataColumnRedshift M)
                 [''database_name'', ''schema_name'', ''table_name'', ''ordinal_position'']
                 columns_redshift redshift_index [db, sn, tn, pos]) (\<lambda>(mredshift, redshift_index').
        ebind (attach (MetadataColumnExternal M)
                 [''databasename'', ''schemaname'', ''tablename'', ''columnnum'']
                 columns_external external_index [db, sn, tn, pos]) (\<lambda>(mexternal, external_index').
        Inr (ms @ [\<lparr>MetadataColumn.database_name = db,
                     MetadataColumn.schema_name = sn,
                     MetadataColumn.table_name = tn,
                     MetadataColumn.column_name = cn,
                     MetadataColumn.ordinal_position = pos,
                     MetadataColumn.base = Some b,
                     MetadataColumn.redshift = mredshift,
                     MetadataColumn.external = mexternal\<rparr>],
             redshift_index', external_index'))))))))))"

definition MetadataColumns_loop ::
  "models \<Rightarrow> row list \<Rightarrow> row list \<Rightarrow> row list \<Rightarrow> error + columns_state" where
  "MetadataColumns_loop M columns_base columns_redshift columns_external =
     for_each (MetadataColumns_body M columns_redshift columns_external) columns_base ([], 0, 0)"

definition MetadataColumns ::
  "models \<Rightarrow> row list \<Rightarrow> row list \<Rightarrow> row list \<Rightarrow> error + MetadataColumn list" where
  "MetadataColumns M columns_base columns_redshift columns_external =
     ebind (MetadataColumns_loop M columns_base columns_redshift columns_external)
       (\<lambda>(ms, redshift_index, external_index). Inr ms)"

section \<open>The aligners on list objects in a store\<close>

text \<open>
  The argument lists of an aligner are Python list objects, which a caller may share and
  change. Here they live in a store, by address, and the loops are written once more with
  every access to a list as a step on the store: \<open>len(xs)\<close>, \<open>xs[i]\<close> and the
  iteration \<open>for x in xs\<close>, which asks the list for its next element at each turn.
  Everything else is as in the loops above.
\<close>

type_synonym store = "nat \<Rightarrow> row list"

definition sbind ::
  "(store \<Rightarrow> (error + 'a) \<times> store) \<Rightarrow> ('a \<Rightarrow> store \<Rightarrow> (error + 'b) \<times> store)
     \<Rightarrow> store \<Rightarrow> (error + 'b) \<times> store" where
  "sbind m f h = (case m h of (Inl e, h') \<Rightarrow> (Inl e, h') | (Inr a, h') \<Rightarrow> f a h')"

definition spure :: "error + 'a \<Rightarrow> store \<Rightarrow> (error + 'a) \<times> store" where
  "spure x h = (x, h)"

definition list_len :: "nat \<Rightarrow> store \<Rightarrow> (error + nat) \<times> store" where
  "list_len a h = (Inr (length (h a)), h)"

definition list_getitem :: "nat \<Rightarrow> nat \<Rightarrow> store \<Rightarrow> (error + row) \<times> store" where
  "list_getitem a i h =
     (if i < length (h a) then (Inr (h a ! i), h) else (Inl IndexError, h))"

definition attach_in_store ::
  "string list \<Rightarrow> string list \<Rightarrow> nat \<Rightarrow> nat \<Rightarrow> pyval list
     \<Rightarrow> store \<Rightarrow> (error + (dataclass option \<times> nat)) \<times> store" where
  "attach_in_store cls attrs rows index key =
     sbind (list_len rows) (\<lambda>n.
       if index < n then
         sbind (list_getitem rows index) (\<lambda>row.
         spure (ebind (construct cls row) (\<lambda>aux.
                ebind (keys_equal aux attrs key) (\<lambda>eq.
                  if eq then Inr (Some aux, index + 1) else Inr (None, index)))))
       else spure (Inr (None, index)))"

text \<open>
  \<open>for x in xs: body\<close> on a list object: the iterator holds an index and, at each turn,
  compares it with the length the list has then. A loop whose body makes the list grow
  would not end; that is the value \<open>None\<close>.
\<close>

partial_function (option) for_in ::
  "('s \<Rightarrow> row \<Rightarrow> store \<Rightarrow> (error + 's) \<times> store) \<Rightarrow> nat \<Rightarrow> nat \<Rightarrow> 's \<Rightarrow> store
     \<Rightarrow> ((error + 's) \<times> store) option" where
  "for_in body xs i s h =
     (if i < length (h xs) then
        (case body s (h xs ! i) h of
           (Inl e, h') \<Rightarrow> Some (Inl e, h')
         | (Inr s', h') \<Rightarrow> for_in body xs (i + 1) s' h')
      else Some (Inr s, h))"

definition MetadataSchemas_body_in_store ::
  "models \<Rightarrow> nat \<Rightarrow> nat \<Rightarrow> schemas_state \<Rightarrow> row \<Rightarrow> store \<Rightarrow> (error + schemas_state) \<times> store" where
  "MetadataSchemas_body_in_store M schemas_redshift schemas_external st schema =
     (case st of (ms, redshift_index, external_index) \<Rightarrow>
        sbind (spure (construct (MetadataSchemaBase M) schema)) (\<lambda>b.
        sbind (spure (getattr b ''database_name'')) (\<lambda>db.
        sbind (spure (getattr b ''schema_name'')) (\<lambda>sn.
        sbind (attach_in_store (MetadataSchemaRedshift M) [''database_name'', ''schema_name'']
                 schemas_redshift redshift_index [db, sn]) (\<lambda>(mredshift, redshift_index').
        sbind (attach_in_store (MetadataSchemaExternal M) [''databasename'', ''schemaname'']
                 schemas_external external_index [db, sn]) (\<lambda>(mexternal, external_index').
        spure (Inr (ms @ [\<lparr>MetadataSchema.database_name = db,
                            MetadataSchema.schema_name = sn,
                            MetadataSchema.base = Some b,
                            MetadataSchema.redshift = mredshift,
                            MetadataSchema.external = mexternal\<rparr>],
                    redshift_index', external_index'))))))))"

definition MetadataSchemas_in_store ::
  "models \<Rightarrow> nat \<Rightarrow> nat \<Rightarrow> nat \<Rightarrow> store \<Rightarrow> ((error + MetadataSchema list) \<times> store) option" where
  "MetadataSchemas_in_store M schemas_base schemas_redshift schemas_external h =
     (case for_in (MetadataSchemas_body_in_store M schemas_redshift schemas_external)
             schemas_base 0 ([], 0, 0) h of
        None \<Rightarrow> None
      | Some (r, h') \<Rightarrow> Some (ebind r (\<lambda>(ms, redshift_index, external_index). Inr ms), h'))"

definition MetadataTables_body_in_store ::
  "models \<Rightarrow> nat \<Rightarrow> nat \<Rightarrow> nat \<Rightarrow> nat \<Rightarrow> tables_state \<Rightarrow> row
     \<Rightarrow> store \<Rightarrow> (error + tables_state) \<times> store" where
  "MetadataTables_body_in_store M tables_all tables_redshift tables_external tables_info st table =
     (case st of (ms, all_index, redshift_index, external_index, info_index) \<Rightarrow>
        sbind (spure (construct (MetadataTableBase M) table)) (\<lambda>b.
        sbind (spure (getattr b ''table_catalog'')) (\<lambda>db.
        sbind (spure (getattr b ''table_schema'')) (\<lambda>sn.
        sbind (spure (getattr b ''table_name'')) (\<lambda>tn.
        sbind (attach_in_store (MetadataTableAll M)
                 [''database_name'', ''schema_name'', ''table_name'']
                 tables_all all_index [db, sn, tn]) (\<lambda>(mall, all_index').
        sbind (attach_in_store (MetadataTableRedshift M)
                 [''database_name'', ''schema_name'', ''table_name'']
                 tables_redshift redshift_index [db, sn, tn]) (\<lambda>(mredshift, redshift_index').
        sbind (attach_in_store (MetadataTableExternal M)
                 [''databasename'', ''schemaname'', ''tablename'']
                 tables_external external_index [db, sn, tn]) (\<lambda>(mexternal, external_index').
        sbind (attach_in_store (MetadataTableInfo M) [''database'', ''schema'', ''table'']
                 tables_info info_index [db, sn, tn]) (\<lambda>(minfo, info_index').
        spure (Inr (ms @ [\<lparr>MetadataTable.database_name = db,
                            MetadataTable.schema_name = sn,
                            MetadataTable.table_name = tn,
                            MetadataTable.base = Some b,
                            MetadataTable.all = mall,
                            MetadataTable.redshift = mredshift,
                            MetadataTable.external = mexternal,
                            MetadataTable.info = minfo,
                            MetadataTable.columns = [],
                            MetadataTable.primary_keys = []\<rparr>],
                    all_index', redshift_index', external_index', info_index')))))))))))"

definition MetadataTables_in_store ::
  "models \<Rightarrow> nat \<Rightarrow> nat \<Rightarrow> nat \<Rightarrow> nat \<Rightarrow> nat \<Rightarrow> store
     \<Rightarrow> ((error + MetadataTable list) \<times> store) option" where
  "MetadataTables_in_store M tables_base tables_all tables_redshift tables_external tables_info h =
     (case for_in (MetadataTables_body_in_store M tables_all tables_redshift tables_external
                     tables_info) tables_base 0 ([], 0, 0, 0, 0) h of
        None \<Rightarrow> None
      | Some (r, h') \<Rightarrow>
          Some (ebind r (\<lambda>(ms, all_index, redshift_index, external_index, info_index). Inr ms),
                h'))"

definition MetadataColumns_body_in_store ::
  "models \<Rightarrow> nat \<Rightarrow> nat \<Rightarrow> columns_state \<Rightarrow> row \<Rightarrow> store \<Rightarrow> (error + columns_state) \<times> store" where
  "MetadataColumns_body_in_store M columns_redshift columns_external st column =
     (case st of (ms, redshift_index, external_index) \<Rightarrow>
        sbind (spure (construct (MetadataColumnBase M) column)) (\<lambda>b.
        sbind (spure (getattr b ''database_name'')) (\<lambda>db.
        sbind (spure (getattr b ''schema_name'')) (\<lambda>sn.
        sbind (spure (getattr b ''table_name'')) (\<lambda>tn.
        sbind (spure (getattr b ''column_name'')) (\<lambda>cn.
        sbind (spure (getattr b ''ordinal_position'')) (\<lambda>pos.
        sbind (attach_in_store (MetadataColumnRedshift M)
                 [''database_name'', ''schema_name'', ''table_name'', ''ordinal_position'']
                 columns_redshift redshift_index [db, sn, tn, pos]) (\<lambda>(mredshift, redshift_index').
        sbind (attach_in_store (MetadataColumnExternal M)
                 [''databasename'', ''schemaname'', ''tablename'', ''columnnum'']
                 columns_external external_index [db, sn, tn, pos]) (\<lambda>(mexternal, external_index').
        spure (Inr (ms @ [\<lparr>MetadataColumn.database_name = db,
                            MetadataColumn.schema_name = sn,
                            MetadataColumn.table_name = tn,
                            MetadataColumn.column_name = cn,
                            MetadataColumn.ordinal_position = pos,
                            MetadataColumn.base = Some b,
                            MetadataColumn.redshift = mredshift,
                            MetadataColumn.external = mexternal\<rparr>],
                    redshift_index', external_index')))))))))))"

definition MetadataColumns_in_store ::
  "models \<Rightarrow> nat \<Rightarrow> nat \<Rightarrow> nat \<Rightarrow> store \<Rightarrow> ((error + MetadataColumn list) \<times> store) option" where
  "MetadataColumns_in_store M columns_base columns_redshift columns_external h =
     (case for_in (MetadataColumns_body_in_store M columns_redshift columns_external)
             columns_base 0 ([], 0, 0) h of
        None \<Rightarrow> None
      | Some (r, h') \<Rightarrow> Some (ebind r (\<lambda>(ms, redshift_index, external_index). Inr ms), h'))"

text \<open>Two runs one after the other: the second starts in the store the first has left.\<close>

definition twice :: "(store \<Rightarrow> ('r \<times> store) option) \<Rightarrow> store \<Rightarrow> ('r \<times> 'r \<times> store) option" where
  "twice run h =
     (case run h of
        None \<Rightarrow> None
      | Some (first, h') \<Rightarrow>
          (case run h' of
             None \<Rightarrow> None
           | Some (second, h'') \<Rightarrow> Some (first, second, h'')))"

section \<open>Dependency extraction\<close>

record Dependency =
  name :: string
  schema :: string

definition uid :: "Dependency \<Rightarrow> string" where
  "uid d = schema d @ ''.'' @ name d"

text \<open>
  What the logger receives: a warning carries the identifier that could not be parsed, an
  exception entry the view definition and the exception that was caught.
\<close>

datatype log_record = LogWarning string | LogException pyval error

text \<open>\<open>str.split(".")\<close>: the pieces between the dots, at least one piece.\<close>

fun split_dot :: "string \<Rightarrow> string list" where
  "split_dot [] = [[]]"
| "split_dot (c # cs) =
     (if c = CHR ''.'' then [] # split_dot cs
      else (case split_dot cs of [] \<Rightarrow> [[c]] | w # ws \<Rightarrow> (c # w) # ws))"

text \<open>\<open>s.replace(c, "")\<close> for a one-character \<open>c\<close>.\<close>

definition replace_empty :: "char \<Rightarrow> string \<Rightarrow> string" where
  "replace_empty c s = filter (\<lambda>x. x \<noteq> c) s"

text \<open>Python's truth value of a column value, as \<open>not self.all.view_ddl\<close> tests it.\<close>

fun truthy :: "pyval \<Rightarrow> bool" where
  "truthy PNone = False"
| "truthy (PStr s) = (s \<noteq> [])"
| "truthy (PInt i) = (i \<noteq> 0)"

text \<open>\<open>self.all.view_ddl\<close>: the slot \<open>all\<close> may be \<open>None\<close>, which has no attributes.\<close>

definition all_view_ddl :: "MetadataTable \<Rightarrow> error + pyval" where
  "all_view_ddl self =
     (case MetadataTable.all self of None \<Rightarrow> Inl AttributeError
      | Some a \<Rightarrow> getattr a ''view_ddl'')"

text \<open>
  The body of \<open>for table in parsed.tables\<close>, on the log and the list \<open>dependencies\<close>.
\<close>

definition dependencies_body ::
  "log_record list \<times> Dependency list \<Rightarrow> string \<Rightarrow> log_record list \<times> Dependency list" where
  "dependencies_body st table =
     (case st of (log, dependencies) \<Rightarrow>
        let schema_name = split_dot table in
        if length schema_name > 2 then (log @ [LogWarning table], dependencies)
        else if length schema_name = 2
          then (log, dependencies @ [\<lparr>name = schema_name ! 1, schema = schema_name ! 0\<rparr>])
          else (log, dependencies @ [\<lparr>name = schema_name ! 0, schema = ''public''\<rparr>]))"

text \<open>
  The \<open>try\<close> block. The library call \<open>Parser(text).tables\<close> is a parameter: it returns
  the table identifiers of the text or raises.
\<close>

definition dependencies_try ::
  "(string \<Rightarrow> error + string list) \<Rightarrow> MetadataTable \<Rightarrow> log_record list \<times> (error + Dependency list)" where
  "dependencies_try parser self =
     (case all_view_ddl self of Inl e \<Rightarrow> ([], Inl e)
      | Inr v \<Rightarrow>
          if \<not> truthy v then ([], Inr [])
          else (case v of
                  PStr s \<Rightarrow>
                    (case parser (replace_empty CHR '')'' (replace_empty CHR ''('' s)) of
                       Inl e \<Rightarrow> ([], Inl e)
                     | Inr tables \<Rightarrow>
                         (case foldl dependencies_body ([], []) tables of
                            (log, dependencies) \<Rightarrow> (log, Inr dependencies)))
                | _ \<Rightarrow> ([], Inl AttributeError)))"

text \<open>
  The property \<open>dependencies\<close>: the handler of \<open>except Exception as e\<close> formats
  \<open>self.all.view_ddl\<close> into its message before it logs and returns the empty list.
\<close>

definition dependencies ::
  "(string \<Rightarrow> error + string list) \<Rightarrow> MetadataTable \<Rightarrow> log_record list \<times> (error + Dependency list)" where
  "dependencies parser self =
     (case dependencies_try parser self of
        (log, Inr ds) \<Rightarrow> (log, Inr ds)
      | (log, Inl e) \<Rightarrow>
          (case all_view_ddl self of
             Inl e' \<Rightarrow> (log, Inl e')
           | Inr v \<Rightarrow> (log @ [LogException v e], Inr [])))"

section \<open>Metadata projection\<close>

text \<open>
  What an instance of \<open>MetadataExtension\<close> holds. The class comes from the library
  \<open>odd_models\<close>; its constructor validates its arguments, so it may raise, and it may
  store the schema identifier in another form than it was given. The constructor is a
  parameter of the projection.
\<close>

record MetadataExtension =
  schema_url :: string
  metadata :: "(string \<times> pyval) list"

text \<open>\<open>d.pop(key)\<close> with no default, on a dictionary kept in insertion order.\<close>

definition dict_pop :: "(string \<times> pyval) list \<Rightarrow> string \<Rightarrow> error + (string \<times> pyval) list" where
  "dict_pop d key =
     (if key \<in> fst ` set d then Inr (filter (\<lambda>kv. fst kv \<noteq> key) d) else Inl KeyError)"

text \<open>
  \<open>_append_metadata_extension\<close>. The set \<open>excluded_keys\<close> is given as the list of its
  elements in the order the \<open>for\<close> loop meets them. The call
  \<open>MetadataExtension(schema_url=..., metadata=...)\<close> is \<open>constructor\<close>. The result is the
  list \<open>metadata_list\<close> after the call, with the exception that was raised, if any.
\<close>

definition append_metadata_extension ::
  "(string \<Rightarrow> (string \<times> pyval) list \<Rightarrow> error + MetadataExtension)
     \<Rightarrow> MetadataExtension list \<Rightarrow> string \<Rightarrow> dataclass option \<Rightarrow> string list option
     \<Rightarrow> MetadataExtension list \<times> error option" where
  "append_metadata_extension constructor metadata_list url metadata_dataclass excluded_keys =
     (case metadata_dataclass of
        None \<Rightarrow> (metadata_list, None)
      | Some obj \<Rightarrow>
          (case (case excluded_keys of None \<Rightarrow> Inr obj
                 | Some keys \<Rightarrow> for_each dict_pop keys obj) of
             Inl e \<Rightarrow> (metadata_list, Some e)
           | Inr metadata' \<Rightarrow>
               (case constructor url (filter (\<lambda>kv. snd kv \<noteq> PNone) metadata') of
                  Inl e \<Rightarrow> (metadata_list, Some e)
                | Inr extension \<Rightarrow> (metadata_list @ [extension], None))))"

section \<open>Identity keys of rows\<close>

text \<open>
  The identity key of a row of class \<open>cls\<close> is the list of the values that the row gives
  to the key attributes \<open>attrs\<close>. A list of rows decodes when every row has the arity of
  the class and the class declares the key attributes.
\<close>

definition identity_key :: "string list \<Rightarrow> string list \<Rightarrow> row \<Rightarrow> pyval option list" where
  "identity_key cls attrs r = map (map_of (zip cls r)) attrs"

definition decodes :: "string list \<Rightarrow> string list \<Rightarrow> row list \<Rightarrow> bool" where
  "decodes cls attrs rows =
     (list_all (\<lambda>a. a \<in> set cls) attrs \<and> list_all (\<lambda>r. length r = length cls) rows)"

text \<open>
  How one iteration may change a cursor, given the slot it fills: the cursor stays and the
  slot is empty, or the slot holds the decoded row under the cursor and the cursor moves by
  one.
\<close>

definition cursor_moved :: "string list \<Rightarrow> row list \<Rightarrow> dataclass option \<Rightarrow> nat \<Rightarrow> nat \<Rightarrow> bool" where
  "cursor_moved cls rows slot index index' =
     (case slot of
        None \<Rightarrow> index' = index
      | Some aux \<Rightarrow> index < length rows \<and> construct cls (rows ! index) = Inr aux \<and>
                    index' = index + 1)"

text \<open>
  An auxiliary list is an exact-identity-key subset of the base list, sorted compatibly
  with it, when the list of its identity keys is a subsequence of the list of the base
  rows' identity keys. A list of slots, one per base row, is populated where listed when
  the slot at position \<open>i\<close> is filled exactly if the identity key of base row \<open>i\<close>
  occurs among the keys of the auxiliary list.
\<close>

definition populated_where_listed ::
  "dataclass option list \<Rightarrow> string list \<Rightarrow> string list \<Rightarrow> row list
     \<Rightarrow> string list \<Rightarrow> string list \<Rightarrow> row list \<Rightarrow> bool" where
  "populated_where_listed slots cls attrs rows base_cls base_attrs base_rows =
     (length slots = length base_rows \<and>
      (\<forall>i<length base_rows.
         slots ! i \<noteq> None \<longleftrightarrow>
         identity_key base_cls base_attrs (base_rows ! i) \<in> set (map (identity_key cls attrs) rows)))"

section \<open>Example inputs\<close>

definition example_models :: models where
  "example_models =
     \<lparr>MetadataColumnBase =
        [''database_name'', ''schema_name'', ''table_name'', ''column_name'', ''ordinal_position'',
         ''data_type''],
      MetadataColumnExternal = [''databasename'', ''schemaname'', ''tablename'', ''columnnum''],
      MetadataColumnRedshift =
        [''database_name'', ''schema_name'', ''table_name'', ''ordinal_position'', ''encoding''],
      MetadataTableAll = [''database_name'', ''schema_name'', ''table_name'', ''view_ddl''],
      MetadataTableBase = [''table_catalog'', ''table_schema'', ''table_name'', ''table_type''],
      MetadataTableExternal = [''databasename'', ''schemaname'', ''tablename'', ''location''],
      MetadataTableInfo = [''database'', ''schema'', ''table'', ''size''],
      MetadataTableRedshift = [''database_name'', ''schema_name'', ''table_name'', ''diststyle''],
      MetadataSchemaBase = [''database_name'', ''schema_name'', ''schema_owner''],
      MetadataSchemaExternal = [''databasename'', ''schemaname'', ''esoptions''],
      MetadataSchemaRedshift = [''database_name'', ''schema_name'', ''schema_type'']\<rparr>"

definition example_schemas_base :: "row list" where
  "example_schemas_base =
     [[PStr ''dev'', PStr ''public'', PStr ''admin''], [PStr ''dev'', PStr ''sales'', PStr ''admin'']]"

definition example_schemas_redshift :: "row list" where
  "example_schemas_redshift = [[PStr ''dev'', PStr ''sales'', PStr ''local'']]"

definition example_tables_base :: "row list" where
  "example_tables_base =
     [[PStr ''dev'', PStr ''public'', PStr ''orders'', PStr ''BASE TABLE''],
      [PStr ''dev'', PStr ''public'', PStr ''totals'', PStr ''VIEW'']]"

definition example_tables_all :: "row list" where
  "example_tables_all =
     [[PStr ''dev'', PStr ''public'', PStr ''totals'', PStr ''SELECT * FROM orders'']]"

definition example_tables_redshift :: "row list" where
  "example_tables_redshift = [[PStr ''dev'', PStr ''public'', PStr ''orders'', PStr ''EVEN'']]"

definition example_tables_info :: "row list" where
  "example_tables_info = [[PStr ''dev'', PStr ''public'', PStr ''orders'', PInt 12]]"

definition example_columns_base :: "row list" where
  "example_columns_base =
     [[PStr ''dev'', PStr ''public'', PStr ''orders'', PStr ''id'', PInt 1, PStr ''integer''],
      [PStr ''dev'', PStr ''public'', PStr ''orders'', PStr ''total'', PInt 2, PStr ''numeric'']]"

definition example_columns_redshift :: "row list" where
  "example_columns_redshift =
     [[PStr ''dev'', PStr ''public'', PStr ''orders'', PInt 2, PStr ''az64'']]"

definition example_schema_public :: MetadataSchema where
  "example_schema_public =
     \<lparr>MetadataSchema.database_name = PStr ''dev'',
      MetadataSchema.schema_name = PStr ''public'',
      MetadataSchema.base =
        Some [(''database_name'', PStr ''dev''), (''schema_name'', PStr ''public''),
              (''schema_owner'', PStr ''admin'')],
      MetadataSchema.redshift = None,
      MetadataSchema.external = None\<rparr>"

definition example_schema_sales :: MetadataSchema where
  "example_schema_sales =
     \<lparr>MetadataSchema.database_name = PStr ''dev'',
      MetadataSchema.schema_name = PStr ''sales'',
      MetadataSchema.base =
        Some [(''database_name'', PStr ''dev''), (''schema_name'', PStr ''sales''),
              (''schema_owner'', PStr ''admin'')],
      MetadataSchema.redshift =
        Some [(''database_name'', PStr ''dev''), (''schema_name'', PStr ''sales''),
              (''schema_type'', PStr ''local'')],
      MetadataSchema.external = None\<rparr>"

definition example_table_orders :: MetadataTable where
  "example_table_orders =
     \<lparr>MetadataTable.database_name = PStr ''dev'',
      MetadataTable.schema_name = PStr ''public'',
      MetadataTable.table_name = PStr ''orders'',
      MetadataTable.base =
        Some [(''table_catalog'', PStr ''dev''), (''table_schema'', PStr ''public''),
              (''table_name'', PStr ''orders''), (''table_type'', PStr ''BASE TABLE'')],
      MetadataTable.all = None,
      MetadataTable.redshift =
        Some [(''database_name'', PStr ''dev''), (''schema_name'', PStr ''public''),
              (''table_name'', PStr ''orders''), (''diststyle'', PStr ''EVEN'')],
      MetadataTable.external = None,
      MetadataTable.info =
        Some [(''database'', PStr ''dev''), (''schema'', PStr ''public''),
              (''table'', PStr ''orders''), (''size'', PInt 12)],
      MetadataTable.columns = [],
      MetadataTable.primary_keys = []\<rparr>"

definition example_table_totals :: MetadataTable where
  "example_table_totals =
     \<lparr>MetadataTable.database_name = PStr ''dev'',
      MetadataTable.schema_name = PStr ''public'',
      MetadataTable.table_name = PStr ''totals'',
      MetadataTable.base =
        Some [(''table_catalog'', PStr ''dev''), (''table_schema'', PStr ''public''),
              (''table_name'', PStr ''totals''), (''table_type'', PStr ''VIEW'')],
      MetadataTable.all =
        Some [(''database_name'', PStr ''dev''), (''schema_name'', PStr ''public''),
              (''table_name'', PStr ''totals''), (''view_ddl'', PStr ''SELECT * FROM orders'')],
      MetadataTable.redshift = None,
      MetadataTable.external = None,
      MetadataTable.info = None,
      MetadataTable.columns = [],
      MetadataTable.primary_keys = []\<rparr>"

definition example_column_id :: MetadataColumn where
  "example_column_id =
     \<lparr>MetadataColumn.database_name = PStr ''dev'',
      MetadataColumn.schema_name = PStr ''public'',
      MetadataColumn.table_name = PStr ''orders'',
      MetadataColumn.column_name = PStr ''id'',
      MetadataColumn.ordinal_position = PInt 1,
      MetadataColumn.base =
        Some [(''database_name'', PStr ''dev''), (''schema_name'', PStr ''public''),
              (''table_name'', PStr ''orders''), (''column_name'', PStr ''id''),
              (''ordinal_position'', PInt 1), (''data_type'', PStr ''integer'')],
      MetadataColumn.redshift = None,
      MetadataColumn.external = None\<rparr>"

definition example_column_total :: MetadataColumn where
  "example_column_total =
     \<lparr>MetadataColumn.database_name = PStr ''dev'',
      MetadataColumn.schema_name = PStr ''public'',
      MetadataColumn.table_name = PStr ''orders'',
      MetadataColumn.column_name = PStr ''total'',
      MetadataColumn.ordinal_position = PInt 2,
      MetadataColumn.base =
        Some [(''database_name'', PStr ''dev''), (''schema_name'', PStr ''public''),
              (''table_name'', PStr ''orders''), (''column_name'', PStr ''total''),
              (''ordinal_position'', PInt 2), (''data_type'', PStr ''numeric'')],
      MetadataColumn.redshift =
        Some [(''database_name'', PStr ''dev''), (''schema_name'', PStr ''public''),
              (''table_name'', PStr ''orders''), (''ordinal_position'', PInt 2),
              (''encoding'', PStr ''az64'')],
      MetadataColumn.external = None\<rparr>"

definition example_view :: MetadataTable where
  "example_view =
     example_table_totals
       \<lparr>MetadataTable.all :=
          Some [(''database_name'', PStr ''dev''), (''schema_name'', PStr ''public''),
                (''table_name'', PStr ''totals''),
                (''view_ddl'', PStr ''SELECT count(*) FROM s1.foo, orders, a.b.c'')]\<rparr>"

definition example_parser :: "string \<Rightarrow> error + string list" where
  "example_parser text =
     (if text = ''SELECT count* FROM s1.foo, orders, a.b.c''
      then Inr [''s1.foo'', ''orders'', ''a.b.c'']
      else Inl ParserFailure)"

definition example_constructor :: "string \<Rightarrow> (string \<times> pyval) list \<Rightarrow> error + MetadataExtension" where
  "example_constructor url mapping =
     (if take 8 url = ''https://'' then Inr \<lparr>schema_url = url, metadata = mapping\<rparr>
      else Inl ValidationError)"

definition example_tables_duplicated :: "row list" where
  "example_tables_duplicated =
     [[PStr ''dev'', PStr ''public'', PStr ''orders'', PStr ''BASE TABLE''],
      [PStr ''dev'', PStr ''public'', PStr ''orders'', PStr ''BASE TABLE'']]"

definition example_table_orders_first :: MetadataTable where
  "example_table_orders_first = example_table_orders\<lparr>MetadataTable.info := None\<rparr>"

definition example_table_orders_second :: MetadataTable where
  "example_table_orders_second =
     example_table_orders\<lparr>MetadataTable.redshift := None, MetadataTable.info := None\<rparr>"

definition example_schemas_external :: "row list" where
  "example_schemas_external = [[PStr ''dev'', PStr ''zzz'', PStr ''opts'']]"

definition example_store :: store where
  "example_store a =
     (if a = 0 then example_tables_base
      else if a = 1 then example_tables_all
      else if a = 2 then example_tables_redshift
      else if a = 3 then []
      else if a = 4 then example_tables_info
      else [])"

section \<open>Loops and exceptions\<close>

lemma ebind_Inr [simp]: "ebind (Inr a) f = f a"
  by (simp add: ebind_def)

lemma ebind_Inl [simp]: "ebind (Inl e) f = Inl e"
  by (simp add: ebind_def)

lemma ebind_eq_Inr: "ebind x f = Inr y \<longleftrightarrow> (\<exists>a. x = Inr a \<and> f a = Inr y)"
  by (cases x) simp_all

lemma for_each_append:
  "for_each body (xs @ ys) s = ebind (for_each body xs s) (for_each body ys)"
proof (induction xs arbitrary: s)
  case Nil
  show ?case by simp
next
  case (Cons x xs)
  show ?case
  proof (cases "body s x")
    case (Inl e)
    then show ?thesis by simp
  next
    case (Inr s1)
    then show ?thesis using Cons.IH [of s1] by simp
  qed
qed

lemma for_each_take_Suc:
  assumes "n < length xs"
  shows "for_each body (take (Suc n) xs) s =
         ebind (for_each body (take n xs) s) (\<lambda>t. body t (xs ! n))"
proof -
  have "take (Suc n) xs = take n xs @ [xs ! n]"
    using assms by (rule take_Suc_conv_app_nth)
  then show ?thesis
    by (simp add: for_each_append ebind_def split: sum.splits)
qed

lemma for_each_outputs:
  assumes step: "\<And>s x s'. body s x = Inr s' \<Longrightarrow> \<exists>m. out s' = out s @ [m] \<and> P x m"
    and run: "for_each body xs s = Inr s'"
  shows "\<exists>new. out s' = out s @ new \<and> list_all2 P xs new"
  using run
proof (induction xs arbitrary: s)
  case Nil
  then show ?case by simp
next
  case (Cons x xs)
  from Cons.prems obtain s1 where s1: "body s x = Inr s1" and rest: "for_each body xs s1 = Inr s'"
    by (auto simp: ebind_eq_Inr)
  from step [OF s1] obtain m where m: "out s1 = out s @ [m]" "P x m" by blast
  from Cons.IH [OF rest] obtain new where new: "out s' = out s1 @ new" "list_all2 P xs new"
    by blast
  have "out s' = out s @ (m # new)" using m new by simp
  moreover have "list_all2 P (x # xs) (m # new)" using m new by simp
  ultimately show ?case by blast
qed

lemma for_each_total:
  assumes "\<And>s x. x \<in> set xs \<Longrightarrow> \<exists>s'. body s x = Inr s'"
  shows "\<exists>s'. for_each body xs s = Inr s'"
  using assms
proof (induction xs arbitrary: s)
  case Nil
  show ?case by simp
next
  case (Cons x xs)
  from Cons.prems [of x s] obtain s1 where s1: "body s x = Inr s1" by auto
  from Cons.IH [of s1] Cons.prems obtain s' where "for_each body xs s1 = Inr s'" by auto
  with s1 show ?case by simp
qed

lemma getattr_Inr: "getattr obj a = Inr v \<longleftrightarrow> map_of obj a = Some v"
  by (simp add: getattr_def split: option.splits)

lemma construct_Inr: "construct cls r = Inr b \<longleftrightarrow> length r = length cls \<and> b = zip cls r"
  by (auto simp: construct_def)

lemma keys_equal_True:
  "length attrs = length ks \<Longrightarrow> keys_equal aux attrs ks = Inr True \<Longrightarrow>
   map (map_of aux) attrs = map Some ks"
proof (induction aux attrs ks rule: keys_equal.induct)
  case (1 aux a as k ks)
  then show ?case
    by (auto simp: ebind_eq_Inr getattr_Inr split: if_splits)
qed simp_all

lemma keys_equal_False:
  "keys_equal aux attrs ks = Inr False \<Longrightarrow> map (map_of aux) attrs \<noteq> map Some ks"
proof (induction aux attrs ks rule: keys_equal.induct)
  case (1 aux a as k ks)
  then show ?case
    by (auto simp: ebind_eq_Inr getattr_Inr split: if_splits)
qed simp_all

lemma keys_equal_total:
  "\<forall>a\<in>set attrs. a \<in> fst ` set aux \<Longrightarrow> \<exists>b. keys_equal aux attrs ks = Inr b"
proof (induction aux attrs ks rule: keys_equal.induct)
  case (1 aux a as k ks)
  then obtain v where "map_of aux a = Some v"
    by (metis list.set_intros(1) map_of_eq_None_iff not_Some_eq)
  then have "getattr aux a = Inr v" by (simp add: getattr_Inr)
  then show ?case using 1 by auto
qed auto


lemma attach_cases:
  assumes "length attrs = length ks" and "attach cls attrs rows i ks = Inr (slot, i')"
  shows "if i < length rows \<and> identity_key cls attrs (rows ! i) = map Some ks
         then length (rows ! i) = length cls \<and> slot = Some (zip cls (rows ! i)) \<and> i' = Suc i
         else slot = None \<and> i' = i"
proof (cases "i < length rows")
  case False
  then show ?thesis using assms(2) by (simp add: attach_def)
next
  case True
  with assms(2) obtain aux eq where aux: "construct cls (rows ! i) = Inr aux"
    and eq: "keys_equal aux attrs ks = Inr eq"
    and res: "(if eq then Inr (Some aux, i + 1) else Inr (None, i)) = (Inr (slot, i') :: error + _)"
    by (auto simp: attach_def ebind_eq_Inr)
  from aux have z: "aux = zip cls (rows ! i)" "length (rows ! i) = length cls"
    by (simp_all add: construct_Inr)
  show ?thesis
  proof (cases eq)
    case True
    with eq assms(1) have "map (map_of aux) attrs = map Some ks"
      by (simp add: keys_equal_True)
    with True res z \<open>i < length rows\<close> show ?thesis
      by (simp add: identity_key_def)
  next
    case False
    with eq have "map (map_of aux) attrs \<noteq> map Some ks"
      by (simp add: keys_equal_False)
    with False res z show ?thesis
      by (simp add: identity_key_def)
  qed
qed

lemma attach_total:
  assumes "decodes cls attrs rows"
  shows "\<exists>r. attach cls attrs rows i ks = Inr r"
proof (cases "i < length rows")
  case False
  then show ?thesis by (simp add: attach_def)
next
  case True
  with assms have len: "length (rows ! i) = length cls"
    by (simp add: decodes_def list_all_length)
  then have c: "construct cls (rows ! i) = Inr (zip cls (rows ! i))"
    by (simp add: construct_def)
  have "\<forall>a\<in>set attrs. a \<in> fst ` set (zip cls (rows ! i))"
    using assms len by (auto simp: decodes_def list_all_iff map_fst_zip simp flip: set_map)
  from keys_equal_total [OF this] obtain b
    where "keys_equal (zip cls (rows ! i)) attrs ks = Inr b" by blast
  with True c show ?thesis by (simp add: attach_def)
qed

lemma for_each_cursor:
  assumes step: "\<And>s x s'. body s x = Inr s' \<Longrightarrow>
      \<exists>ks m. out s' = out s @ [m] \<and> length attrs = length ks \<and> bk x = map Some ks \<and>
              attach cls attrs rows (cur s) ks = Inr (slot m, cur s')"
    and run: "for_each body xs s = Inr s'"
    and dist: "distinct (map bk xs)"
    and sub: "subseq (drop (cur s) (map (identity_key cls attrs) rows)) (map bk xs)"
  shows "\<exists>new. out s' = out s @ new \<and>
           list_all2 (\<lambda>x m. slot m \<noteq> None \<longleftrightarrow>
                        bk x \<in> set (drop (cur s) (map (identity_key cls attrs) rows))) xs new"
  using run dist sub
proof (induction xs arbitrary: s)
  case Nil
  then show ?case by simp
next
  case (Cons x xs)
  let ?aks = "map (identity_key cls attrs) rows"
  from Cons.prems(1) obtain s1 where s1: "body s x = Inr s1" and rest: "for_each body xs s1 = Inr s'"
    by (auto simp: ebind_eq_Inr)
  from step [OF s1] obtain m ks where m: "out s1 = out s @ [m]" and len: "length attrs = length ks"
    and bk: "bk x = map Some ks" and att: "attach cls attrs rows (cur s) ks = Inr (slot m, cur s1)"
    by blast
  note ac = attach_cases [OF len att]
  from Cons.prems(2) have dxs: "distinct (map bk xs)" and xnotin: "bk x \<notin> set (map bk xs)"
    by simp_all
  show ?case
  proof (cases "cur s < length rows \<and> identity_key cls attrs (rows ! cur s) = map Some ks")
    case True
    with ac have sl: "slot m \<noteq> None" and c1: "cur s1 = Suc (cur s)" by simp_all
    from True have dr: "drop (cur s) ?aks = bk x # drop (Suc (cur s)) ?aks"
      by (simp add: bk Cons_nth_drop_Suc [symmetric])
    with Cons.prems(3) have sub1: "subseq (drop (cur s1) ?aks) (map bk xs)"
      by (simp add: c1)
    from Cons.IH [OF rest dxs sub1] obtain new where new: "out s' = out s1 @ new"
      and all2: "list_all2 (\<lambda>x m. slot m \<noteq> None \<longleftrightarrow> bk x \<in> set (drop (cur s1) ?aks)) xs new"
      by blast
    have "list_all2 (\<lambda>x m. slot m \<noteq> None \<longleftrightarrow> bk x \<in> set (drop (cur s) ?aks)) xs new"
    proof -
      have "bk y \<noteq> bk x" if "y \<in> set xs" for y
        using that xnotin by (metis image_eqI set_map)
      then have "\<forall>i<length xs. bk (xs ! i) \<noteq> bk x" by simp
      with all2 show ?thesis unfolding dr c1
        by (auto simp: list_all2_conv_all_nth)
    qed
    with sl dr have "list_all2 (\<lambda>x m. slot m \<noteq> None \<longleftrightarrow> bk x \<in> set (drop (cur s) ?aks))
        (x # xs) (m # new)" by simp
    moreover have "out s' = out s @ (m # new)" using m new by simp
    ultimately show ?thesis by blast
  next
    case False
    with ac have sl: "slot m = None" and c1: "cur s1 = cur s" by simp_all
    have sub1: "subseq (drop (cur s) ?aks) (map bk xs)"
    proof (cases "cur s < length rows")
      case False
      then show ?thesis by simp
    next
      case True
      with \<open>\<not> (cur s < length rows \<and> identity_key cls attrs (rows ! cur s) = map Some ks)\<close>
      have ne: "identity_key cls attrs (rows ! cur s) \<noteq> bk x" by (simp add: bk)
      from True have "drop (cur s) ?aks =
          identity_key cls attrs (rows ! cur s) # drop (Suc (cur s)) ?aks"
        by (simp add: Cons_nth_drop_Suc [symmetric])
      with Cons.prems(3) ne show ?thesis by (auto split: if_splits)
    qed
    then have "set (drop (cur s) ?aks) \<subseteq> set (map bk xs)"
      by (auto elim: list_emb_set)
    with xnotin have xout: "bk x \<notin> set (drop (cur s) ?aks)" by blast
    from sub1 have sub1': "subseq (drop (cur s1) ?aks) (map bk xs)" by (simp add: c1)
    from Cons.IH [OF rest dxs sub1'] obtain new where new: "out s' = out s1 @ new"
      and all2: "list_all2 (\<lambda>x m. slot m \<noteq> None \<longleftrightarrow> bk x \<in> set (drop (cur s1) ?aks)) xs new"
      by blast
    from all2 sl xout have "list_all2 (\<lambda>x m. slot m \<noteq> None \<longleftrightarrow> bk x \<in> set (drop (cur s) ?aks))
        (x # xs) (m # new)" by (simp add: c1)
    moreover have "out s' = out s @ (m # new)" using m new by simp
    ultimately show ?thesis by blast
  qed
qed

section \<open>One iteration of each aligner\<close>

lemma MetadataSchemas_body_Inr:
  assumes "MetadataSchemas_body M rs es (ms, ri, ei) x = Inr s'"
  obtains db sn mr ri' me ei' where
    "length x = length (MetadataSchemaBase M)"
    "map_of (zip (MetadataSchemaBase M) x) ''database_name'' = Some db"
    "map_of (zip (MetadataSchemaBase M) x) ''schema_name'' = Some sn"
    "attach (MetadataSchemaRedshift M) [''database_name'', ''schema_name''] rs ri [db, sn]
       = Inr (mr, ri')"
    "attach (MetadataSchemaExternal M) [''databasename'', ''schemaname''] es ei [db, sn]
       = Inr (me, ei')"
    "s' = (ms @ [\<lparr>MetadataSchema.database_name = db, MetadataSchema.schema_name = sn,
                   MetadataSchema.base = Some (zip (MetadataSchemaBase M) x),
                   MetadataSchema.redshift = mr, MetadataSchema.external = me\<rparr>], ri', ei')"
  using assms unfolding MetadataSchemas_body_def
  by (auto simp: ebind_eq_Inr getattr_Inr construct_Inr)

lemma MetadataTables_body_Inr:
  assumes "MetadataTables_body M ta tr te ti (ms, ai, ri, ei, ii) x = Inr s'"
  obtains db sn tn ma ai' mr ri' me ei' mi ii' where
    "length x = length (MetadataTableBase M)"
    "map_of (zip (MetadataTableBase M) x) ''table_catalog'' = Some db"
    "map_of (zip (MetadataTableBase M) x) ''table_schema'' = Some sn"
    "map_of (zip (MetadataTableBase M) x) ''table_name'' = Some tn"
    "attach (MetadataTableAll M) [''database_name'', ''schema_name'', ''table_name'']
       ta ai [db, sn, tn] = Inr (ma, ai')"
    "attach (MetadataTableRedshift M) [''database_name'', ''schema_name'', ''table_name'']
       tr ri [db, sn, tn] = Inr (mr, ri')"
    "attach (MetadataTableExternal M) [''databasename'', ''schemaname'', ''tablename'']
       te ei [db, sn, tn] = Inr (me, ei')"
    "attach (MetadataTableInfo M) [''database'', ''schema'', ''table'']
       ti ii [db, sn, tn] = Inr (mi, ii')"
    "s' = (ms @ [\<lparr>MetadataTable.database_name = db, MetadataTable.schema_name = sn,
                   MetadataTable.table_name = tn,
                   MetadataTable.base = Some (zip (MetadataTableBase M) x),
                   MetadataTable.all = ma, MetadataTable.redshift = mr,
                   MetadataTable.external = me, MetadataTable.info = mi,
                   MetadataTable.columns = [], MetadataTable.primary_keys = []\<rparr>],
           ai', ri', ei', ii')"
  using assms unfolding MetadataTables_body_def
  by (auto simp: ebind_eq_Inr getattr_Inr construct_Inr)

lemma MetadataColumns_body_Inr:
  assumes "MetadataColumns_body M rs es (ms, ri, ei) x = Inr s'"
  obtains db sn tn cn pos mr ri' me ei' where
    "length x = length (MetadataColumnBase M)"
    "map_of (zip (MetadataColumnBase M) x) ''database_name'' = Some db"
    "map_of (zip (MetadataColumnBase M) x) ''schema_name'' = Some sn"
    "map_of (zip (MetadataColumnBase M) x) ''table_name'' = Some tn"
    "map_of (zip (MetadataColumnBase M) x) ''column_name'' = Some cn"
    "map_of (zip (MetadataColumnBase M) x) ''ordinal_position'' = Some pos"
    "attach (MetadataColumnRedshift M)
       [''database_name'', ''schema_name'', ''table_name'', ''ordinal_position'']
       rs ri [db, sn, tn, pos] = Inr (mr, ri')"
    "attach (MetadataColumnExternal M)
       [''databasename'', ''schemaname'', ''tablename'', ''columnnum'']
       es ei [db, sn, tn, pos] = Inr (me, ei')"
    "s' = (ms @ [\<lparr>MetadataColumn.database_name = db, MetadataColumn.schema_name = sn,
                   MetadataColumn.table_name = tn, MetadataColumn.column_name = cn,
                   MetadataColumn.ordinal_position = pos,
                   MetadataColumn.base = Some (zip (MetadataColumnBase M) x),
                   MetadataColumn.redshift = mr, MetadataColumn.external = me\<rparr>], ri', ei')"
  using assms unfolding MetadataColumns_body_def
  by (auto simp: ebind_eq_Inr getattr_Inr construct_Inr)

section \<open>Rows that decode never raise\<close>

lemma decodes_construct:
  "decodes cls attrs rows \<Longrightarrow> x \<in> set rows \<Longrightarrow> construct cls x = Inr (zip cls x)"
  by (simp add: decodes_def list_all_iff construct_def)

lemma decodes_getattr:
  assumes "decodes cls attrs rows" "x \<in> set rows" "a \<in> set attrs"
  shows "\<exists>v. getattr (zip cls x) a = Inr v"
proof -
  from assms have "length x = length cls" "a \<in> set cls"
    by (simp_all add: decodes_def list_all_iff)
  then obtain v where "map_of (zip cls x) a = Some v"
    by (metis map_of_zip_is_Some)
  then show ?thesis by (simp add: getattr_Inr)
qed

lemma MetadataSchemas_body_total:
  assumes b: "decodes (MetadataSchemaBase M) [''database_name'', ''schema_name''] sb"
    and x: "x \<in> set sb"
    and r: "decodes (MetadataSchemaRedshift M) [''database_name'', ''schema_name''] sr"
    and e: "decodes (MetadataSchemaExternal M) [''databasename'', ''schemaname''] se"
  shows "\<exists>s'. MetadataSchemas_body M sr se s x = Inr s'"
proof -
  obtain ms ri ei where s: "s = (ms, ri, ei)" by (cases s) auto
  note c = decodes_construct [OF b x]
  from decodes_getattr [OF b x] obtain db sn
    where g: "getattr (zip (MetadataSchemaBase M) x) ''database_name'' = Inr db"
      "getattr (zip (MetadataSchemaBase M) x) ''schema_name'' = Inr sn"
    by fastforce
  from attach_total [OF r] obtain mr ri'
    where ar: "attach (MetadataSchemaRedshift M) [''database_name'', ''schema_name''] sr ri [db, sn]
      = Inr (mr, ri')" by fastforce
  from attach_total [OF e] obtain me ei'
    where ae: "attach (MetadataSchemaExternal M) [''databasename'', ''schemaname''] se ei [db, sn]
      = Inr (me, ei')" by fastforce
  show ?thesis
    unfolding MetadataSchemas_body_def s by (simp add: c g ar ae)
qed

lemma MetadataTables_body_total:
  assumes b: "decodes (MetadataTableBase M) [''table_catalog'', ''table_schema'', ''table_name''] tb"
    and x: "x \<in> set tb"
    and a: "decodes (MetadataTableAll M) [''database_name'', ''schema_name'', ''table_name''] ta"
    and r: "decodes (MetadataTableRedshift M) [''database_name'', ''schema_name'', ''table_name''] tr"
    and e: "decodes (MetadataTableExternal M) [''databasename'', ''schemaname'', ''tablename''] te"
    and i: "decodes (MetadataTableInfo M) [''database'', ''schema'', ''table''] ti"
  shows "\<exists>s'. MetadataTables_body M ta tr te ti s x = Inr s'"
proof -
  obtain ms ai ri ei ii where s: "s = (ms, ai, ri, ei, ii)" by (cases s) auto
  note c = decodes_construct [OF b x]
  from decodes_getattr [OF b x] obtain db sn tn
    where g: "getattr (zip (MetadataTableBase M) x) ''table_catalog'' = Inr db"
      "getattr (zip (MetadataTableBase M) x) ''table_schema'' = Inr sn"
      "getattr (zip (MetadataTableBase M) x) ''table_name'' = Inr tn"
    by fastforce
  from attach_total [OF a] obtain ma ai'
    where aa: "attach (MetadataTableAll M) [''database_name'', ''schema_name'', ''table_name'']
      ta ai [db, sn, tn] = Inr (ma, ai')" by fastforce
  from attach_total [OF r] obtain mr ri'
    where ar: "attach (MetadataTableRedshift M) [''database_name'', ''schema_name'', ''table_name'']
      tr ri [db, sn, tn] = Inr (mr, ri')" by fastforce
  from attach_total [OF e] obtain me ei'
    where ae: "attach (MetadataTableExternal M) [''databasename'', ''schemaname'', ''tablename'']
      te ei [db, sn, tn] = Inr (me, ei')" by fastforce
  from attach_total [OF i] obtain mi ii'
    where ai: "attach (MetadataTableInfo M) [''database'', ''schema'', ''table'']
      ti ii [db, sn, tn] = Inr (mi, ii')" by fastforce
  show ?thesis
    unfolding MetadataTables_body_def s by (simp add: c g aa ar ae ai)
qed

lemma MetadataColumns_body_total:
  assumes b: "decodes (MetadataColumnBase M)
      [''database_name'', ''schema_name'', ''table_name'', ''column_name'', ''ordinal_position''] cb"
    and x: "x \<in> set cb"
    and r: "decodes (MetadataColumnRedshift M)
      [''database_name'', ''schema_name'', ''table_name'', ''ordinal_position''] cr"
    and e: "decodes (MetadataColumnExternal M)
      [''databasename'', ''schemaname'', ''tablename'', ''columnnum''] ce"
  shows "\<exists>s'. MetadataColumns_body M cr ce s x = Inr s'"
proof -
  obtain ms ri ei where s: "s = (ms, ri, ei)" by (cases s) auto
  note c = decodes_construct [OF b x]
  from decodes_getattr [OF b x] obtain db sn tn cn pos
    where g: "getattr (zip (MetadataColumnBase M) x) ''database_name'' = Inr db"
      "getattr (zip (MetadataColumnBase M) x) ''schema_name'' = Inr sn"
      "getattr (zip (MetadataColumnBase M) x) ''table_name'' = Inr tn"
      "getattr (zip (MetadataColumnBase M) x) ''column_name'' = Inr cn"
      "getattr (zip (MetadataColumnBase M) x) ''ordinal_position'' = Inr pos"
    by fastforce
  from attach_total [OF r] obtain mr ri'
    where ar: "attach (MetadataColumnRedshift M)
      [''database_name'', ''schema_name'', ''table_name'', ''ordinal_position'']
      cr ri [db, sn, tn, pos] = Inr (mr, ri')" by fastforce
  from attach_total [OF e] obtain me ei'
    where ae: "attach (MetadataColumnExternal M)
      [''databasename'', ''schemaname'', ''tablename'', ''columnnum'']
      ce ei [db, sn, tn, pos] = Inr (me, ei')" by fastforce
  show ?thesis
    unfolding MetadataColumns_body_def s by (simp add: c g ar ae)
qed

lemma MetadataSchemas_total:
  assumes "decodes (MetadataSchemaBase M) [''database_name'', ''schema_name''] sb"
    and "decodes (MetadataSchemaRedshift M) [''database_name'', ''schema_name''] sr"
    and "decodes (MetadataSchemaExternal M) [''databasename'', ''schemaname''] se"
  shows "\<exists>ms. MetadataSchemas M sb sr se = Inr ms"
proof -
  have "\<exists>s'. for_each (MetadataSchemas_body M sr se) sb ([], 0, 0) = Inr s'"
    by (rule for_each_total) (rule MetadataSchemas_body_total [OF assms(1) _ assms(2,3)])
  then show ?thesis
    by (auto simp: MetadataSchemas_def MetadataSchemas_loop_def)
qed

lemma MetadataTables_total:
  assumes "decodes (MetadataTableBase M) [''table_catalog'', ''table_schema'', ''table_name''] tb"
    and "decodes (MetadataTableAll M) [''database_name'', ''schema_name'', ''table_name''] ta"
    and "decodes (MetadataTableRedshift M) [''database_name'', ''schema_name'', ''table_name''] tr"
    and "decodes (MetadataTableExternal M) [''databasename'', ''schemaname'', ''tablename''] te"
    and "decodes (MetadataTableInfo M) [''database'', ''schema'', ''table''] ti"
  shows "\<exists>ms. MetadataTables M tb ta tr te ti = Inr ms"
proof -
  have "\<exists>s'. for_each (MetadataTables_body M ta tr te ti) tb ([], 0, 0, 0, 0) = Inr s'"
    by (rule for_each_total) (rule MetadataTables_body_total [OF assms(1) _ assms(2,3,4,5)])
  then show ?thesis
    by (auto simp: MetadataTables_def MetadataTables_loop_def)
qed

lemma MetadataColumns_total:
  assumes "decodes (MetadataColumnBase M)
      [''database_name'', ''schema_name'', ''table_name'', ''column_name'', ''ordinal_position''] cb"
    and "decodes (MetadataColumnRedshift M)
      [''database_name'', ''schema_name'', ''table_name'', ''ordinal_position''] cr"
    and "decodes (MetadataColumnExternal M)
      [''databasename'', ''schemaname'', ''tablename'', ''columnnum''] ce"
  shows "\<exists>ms. MetadataColumns M cb cr ce = Inr ms"
proof -
  have "\<exists>s'. for_each (MetadataColumns_body M cr ce) cb ([], 0, 0) = Inr s'"
    by (rule for_each_total) (rule MetadataColumns_body_total [OF assms(1) _ assms(2,3)])
  then show ?thesis
    by (auto simp: MetadataColumns_def MetadataColumns_loop_def)
qed

section \<open>What every merged object holds\<close>

lemma MetadataSchemas_outputs:
  assumes "MetadataSchemas M sb sr se = Inr ms"
  shows "list_all2 (\<lambda>x m. length x = length (MetadataSchemaBase M) \<and>
           MetadataSchema.base m = Some (zip (MetadataSchemaBase M) x) \<and>
           map_of (zip (MetadataSchemaBase M) x) ''database_name''
             = Some (MetadataSchema.database_name m) \<and>
           map_of (zip (MetadataSchemaBase M) x) ''schema_name''
             = Some (MetadataSchema.schema_name m)) sb ms"
    (is "list_all2 ?P sb ms")
proof -
  from assms obtain ri ei
    where run: "for_each (MetadataSchemas_body M sr se) sb ([], 0, 0) = Inr (ms, ri, ei)"
    by (auto simp: MetadataSchemas_def MetadataSchemas_loop_def ebind_eq_Inr)
  have step: "\<exists>m. fst s' = fst s @ [m] \<and> ?P x m"
    if "MetadataSchemas_body M sr se s x = Inr s'" for s x s'
  proof -
    obtain ms0 ri0 ei0 where s: "s = (ms0, ri0, ei0)" by (cases s) auto
    from that [unfolded s] show ?thesis
      by (rule MetadataSchemas_body_Inr) (simp add: s)
  qed
  from for_each_outputs [of "MetadataSchemas_body M sr se" fst ?P, OF step run]
  show ?thesis by simp
qed

lemma MetadataTables_outputs:
  assumes "MetadataTables M tb ta tr te ti = Inr ms"
  shows "list_all2 (\<lambda>x m. length x = length (MetadataTableBase M) \<and>
           MetadataTable.base m = Some (zip (MetadataTableBase M) x) \<and>
           map_of (zip (MetadataTableBase M) x) ''table_catalog''
             = Some (MetadataTable.database_name m) \<and>
           map_of (zip (MetadataTableBase M) x) ''table_schema''
             = Some (MetadataTable.schema_name m) \<and>
           map_of (zip (MetadataTableBase M) x) ''table_name''
             = Some (MetadataTable.table_name m)) tb ms"
    (is "list_all2 ?P tb ms")
proof -
  from assms obtain ai ri ei ii
    where run: "for_each (MetadataTables_body M ta tr te ti) tb ([], 0, 0, 0, 0)
      = Inr (ms, ai, ri, ei, ii)"
    by (auto simp: MetadataTables_def MetadataTables_loop_def ebind_eq_Inr)
  have step: "\<exists>m. fst s' = fst s @ [m] \<and> ?P x m"
    if "MetadataTables_body M ta tr te ti s x = Inr s'" for s x s'
  proof -
    obtain ms0 ai0 ri0 ei0 ii0 where s: "s = (ms0, ai0, ri0, ei0, ii0)" by (cases s) auto
    from that [unfolded s] show ?thesis
      by (rule MetadataTables_body_Inr) (simp add: s)
  qed
  from for_each_outputs [of "MetadataTables_body M ta tr te ti" fst ?P, OF step run]
  show ?thesis by simp
qed

lemma MetadataColumns_outputs:
  assumes "MetadataColumns M cb cr ce = Inr ms"
  shows "list_all2 (\<lambda>x m. length x = length (MetadataColumnBase M) \<and>
           MetadataColumn.base m = Some (zip (MetadataColumnBase M) x) \<and>
           map_of (zip (MetadataColumnBase M) x) ''database_name''
             = Some (MetadataColumn.database_name m) \<and>
           map_of (zip (MetadataColumnBase M) x) ''schema_name''
             = Some (MetadataColumn.schema_name m) \<and>
           map_of (zip (MetadataColumnBase M) x) ''table_name''
             = Some (MetadataColumn.table_name m) \<and>
           map_of (zip (MetadataColumnBase M) x) ''column_name''
             = Some (MetadataColumn.column_name m) \<and>
           map_of (zip (MetadataColumnBase M) x) ''ordinal_position''
             = Some (MetadataColumn.ordinal_position m)) cb ms"
    (is "list_all2 ?P cb ms")
proof -
  from assms obtain ri ei
    where run: "for_each (MetadataColumns_body M cr ce) cb ([], 0, 0) = Inr (ms, ri, ei)"
    by (auto simp: MetadataColumns_def MetadataColumns_loop_def ebind_eq_Inr)
  have step: "\<exists>m. fst s' = fst s @ [m] \<and> ?P x m"
    if "MetadataColumns_body M cr ce s x = Inr s'" for s x s'
  proof -
    obtain ms0 ri0 ei0 where s: "s = (ms0, ri0, ei0)" by (cases s) auto
    from that [unfolded s] show ?thesis
      by (rule MetadataColumns_body_Inr) (simp add: s)
  qed
  from for_each_outputs [of "MetadataColumns_body M cr ce" fst ?P, OF step run]
  show ?thesis by simp
qed

lemma example_schemas_decode:
  "decodes (MetadataSchemaBase example_models) [''database_name'', ''schema_name'']
     example_schemas_base"
  "decodes (MetadataSchemaRedshift example_models) [''database_name'', ''schema_name'']
     example_schemas_redshift"
  "decodes (MetadataSchemaExternal example_models) [''databasename'', ''schemaname''] []"
  by (simp_all add: decodes_def example_models_def example_schemas_base_def
      example_schemas_redshift_def)

lemma example_tables_decode:
  "decodes (MetadataTableBase example_models) [''table_catalog'', ''table_schema'', ''table_name'']
     example_tables_base"
  "decodes (MetadataTableAll example_models) [''database_name'', ''schema_name'', ''table_name'']
     example_tables_all"
  "decodes (MetadataTableRedshift example_models)
     [''database_name'', ''schema_name'', ''table_name''] example_tables_redshift"
  "decodes (MetadataTableExternal example_models) [''databasename'', ''schemaname'', ''tablename'']
     []"
  "decodes (MetadataTableInfo example_models) [''database'', ''schema'', ''table'']
     example_tables_info"
  by (simp_all add: decodes_def example_models_def example_tables_base_def example_tables_all_def
      example_tables_redshift_def example_tables_info_def)

lemma example_columns_decode:
  "decodes (MetadataColumnBase example_models)
     [''database_name'', ''schema_name'', ''table_name'', ''column_name'', ''ordinal_position'']
     example_columns_base"
  "decodes (MetadataColumnRedshift example_models)
     [''database_name'', ''schema_name'', ''table_name'', ''ordinal_position'']
     example_columns_redshift"
  "decodes (MetadataColumnExternal example_models)
     [''databasename'', ''schemaname'', ''tablename'', ''columnnum''] []"
  by (simp_all add: decodes_def example_models_def example_columns_base_def
      example_columns_redshift_def)

section \<open>Claims about the aligners\<close>

text \<open>
  C2. Each aligner returns one merged object per base row, in the order of the base list,
  and the object at position \<open>i\<close> holds the decoded base row \<open>i\<close>. The aligner returns
  whenever the rows of all its lists decode; whenever it returns, for any auxiliary lists,
  the output has the length of the base list.
\<close>

theorem aligner_output_one_per_base_row:
  "(decodes (MetadataSchemaBase M) [''database_name'', ''schema_name''] sb \<and>
    decodes (MetadataSchemaRedshift M) [''database_name'', ''schema_name''] sr \<and>
    decodes (MetadataSchemaExternal M) [''databasename'', ''schemaname''] se
      \<longrightarrow> (\<exists>ms. MetadataSchemas M sb sr se = Inr ms)) \<and>
   (\<forall>ms. MetadataSchemas M sb sr se = Inr ms \<longrightarrow>
      length ms = length sb \<and>
      (\<forall>i<length sb. \<exists>b. construct (MetadataSchemaBase M) (sb ! i) = Inr b \<and>
                           MetadataSchema.base (ms ! i) = Some b)) \<and>
   (decodes (MetadataTableBase M) [''table_catalog'', ''table_schema'', ''table_name''] tb \<and>
    decodes (MetadataTableAll M) [''database_name'', ''schema_name'', ''table_name''] ta \<and>
    decodes (MetadataTableRedshift M) [''database_name'', ''schema_name'', ''table_name''] tr \<and>
    decodes (MetadataTableExternal M) [''databasename'', ''schemaname'', ''tablename''] te \<and>
    decodes (MetadataTableInfo M) [''database'', ''schema'', ''table''] ti
      \<longrightarrow> (\<exists>ms. MetadataTables M tb ta tr te ti = Inr ms)) \<and>
   (\<forall>ms. MetadataTables M tb ta tr te ti = Inr ms \<longrightarrow>
      length ms = length tb \<and>
      (\<forall>i<length tb. \<exists>b. construct (MetadataTableBase M) (tb ! i) = Inr b \<and>
                           MetadataTable.base (ms ! i) = Some b)) \<and>
   (decodes (MetadataColumnBase M)
      [''database_name'', ''schema_name'', ''table_name'', ''column_name'', ''ordinal_position'']
      cb \<and>
    decodes (MetadataColumnRedshift M)
      [''database_name'', ''schema_name'', ''table_name'', ''ordinal_position''] cr \<and>
    decodes (MetadataColumnExternal M)
      [''databasename'', ''schemaname'', ''tablename'', ''columnnum''] ce
      \<longrightarrow> (\<exists>ms. MetadataColumns M cb cr ce = Inr ms)) \<and>
   (\<forall>ms. MetadataColumns M cb cr ce = Inr ms \<longrightarrow>
      length ms = length cb \<and>
      (\<forall>i<length cb. \<exists>b. construct (MetadataColumnBase M) (cb ! i) = Inr b \<and>
                           MetadataColumn.base (ms ! i) = Some b))"
proof -
  have s1: "decodes (MetadataSchemaBase M) [''database_name'', ''schema_name''] sb \<and>
    decodes (MetadataSchemaRedshift M) [''database_name'', ''schema_name''] sr \<and>
    decodes (MetadataSchemaExternal M) [''databasename'', ''schemaname''] se
      \<longrightarrow> (\<exists>ms. MetadataSchemas M sb sr se = Inr ms)"
    using MetadataSchemas_total by blast
  have s2: "\<forall>ms. MetadataSchemas M sb sr se = Inr ms \<longrightarrow>
      length ms = length sb \<and>
      (\<forall>i<length sb. \<exists>b. construct (MetadataSchemaBase M) (sb ! i) = Inr b \<and>
                           MetadataSchema.base (ms ! i) = Some b)"
    using MetadataSchemas_outputs [of M sb sr se]
    by (simp add: list_all2_conv_all_nth construct_Inr)
  have t1: "decodes (MetadataTableBase M) [''table_catalog'', ''table_schema'', ''table_name''] tb \<and>
    decodes (MetadataTableAll M) [''database_name'', ''schema_name'', ''table_name''] ta \<and>
    decodes (MetadataTableRedshift M) [''database_name'', ''schema_name'', ''table_name''] tr \<and>
    decodes (MetadataTableExternal M) [''databasename'', ''schemaname'', ''tablename''] te \<and>
    decodes (MetadataTableInfo M) [''database'', ''schema'', ''table''] ti
      \<longrightarrow> (\<exists>ms. MetadataTables M tb ta tr te ti = Inr ms)"
    using MetadataTables_total by blast
  have t2: "\<forall>ms. MetadataTables M tb ta tr te ti = Inr ms \<longrightarrow>
      length ms = length tb \<and>
      (\<forall>i<length tb. \<exists>b. construct (MetadataTableBase M) (tb ! i) = Inr b \<and>
                           MetadataTable.base (ms ! i) = Some b)"
    using MetadataTables_outputs [of M tb ta tr te ti]
    by (simp add: list_all2_conv_all_nth construct_Inr)
  have c1: "decodes (MetadataColumnBase M)
      [''database_name'', ''schema_name'', ''table_name'', ''column_name'', ''ordinal_position'']
      cb \<and>
    decodes (MetadataColumnRedshift M)
      [''database_name'', ''schema_name'', ''table_name'', ''ordinal_position''] cr \<and>
    decodes (MetadataColumnExternal M)
      [''databasename'', ''schemaname'', ''tablename'', ''columnnum''] ce
      \<longrightarrow> (\<exists>ms. MetadataColumns M cb cr ce = Inr ms)"
    using MetadataColumns_total by blast
  have c2: "\<forall>ms. MetadataColumns M cb cr ce = Inr ms \<longrightarrow>
      length ms = length cb \<and>
      (\<forall>i<length cb. \<exists>b. construct (MetadataColumnBase M) (cb ! i) = Inr b \<and>
                           MetadataColumn.base (ms ! i) = Some b)"
    using MetadataColumns_outputs [of M cb cr ce]
    by (simp add: list_all2_conv_all_nth construct_Inr)
  show ?thesis
    by (rule conjI [OF s1 conjI [OF s2 conjI [OF t1 conjI [OF t2 conjI [OF c1 c2]]]]])
qed

theorem aligner_output_one_per_base_row_witness:
  "(\<exists>ms. MetadataSchemas example_models example_schemas_base example_schemas_redshift [] = Inr ms \<and>
          length ms = 2 \<and>
          MetadataSchema.base (ms ! 1) =
            Some [(''database_name'', PStr ''dev''), (''schema_name'', PStr ''sales''),
                  (''schema_owner'', PStr ''admin'')]) \<and>
   (\<exists>ms. MetadataTables example_models example_tables_base example_tables_all
            example_tables_redshift [] example_tables_info = Inr ms \<and>
          length ms = 2 \<and>
          MetadataTable.base (ms ! 0) =
            Some [(''table_catalog'', PStr ''dev''), (''table_schema'', PStr ''public''),
                  (''table_name'', PStr ''orders''), (''table_type'', PStr ''BASE TABLE'')]) \<and>
   (\<exists>ms. MetadataColumns example_models example_columns_base example_columns_redshift [] = Inr ms \<and>
          length ms = 2 \<and>
          MetadataColumn.base (ms ! 1) =
            Some [(''database_name'', PStr ''dev''), (''schema_name'', PStr ''public''),
                  (''table_name'', PStr ''orders''), (''column_name'', PStr ''total''),
                  (''ordinal_position'', PInt 2), (''data_type'', PStr ''numeric'')])"
proof -
  note t = aligner_output_one_per_base_row [where M = example_models
      and sb = example_schemas_base and sr = example_schemas_redshift and se = "[]"
      and tb = example_tables_base and ta = example_tables_all and tr = example_tables_redshift
      and te = "[]" and ti = example_tables_info
      and cb = example_columns_base and cr = example_columns_redshift and ce = "[]"]
  note s_runs = t [THEN conjunct1, rule_format]
    and s_out = t [THEN conjunct2, THEN conjunct1, rule_format]
    and t_runs = t [THEN conjunct2, THEN conjunct2, THEN conjunct1, rule_format]
    and t_out = t [THEN conjunct2, THEN conjunct2, THEN conjunct2, THEN conjunct1, rule_format]
    and c_runs = t [THEN conjunct2, THEN conjunct2, THEN conjunct2, THEN conjunct2,
      THEN conjunct1, rule_format]
    and c_out = t [THEN conjunct2, THEN conjunct2, THEN conjunct2, THEN conjunct2,
      THEN conjunct2, rule_format]
  from s_runs example_schemas_decode obtain ss
    where ss: "MetadataSchemas example_models example_schemas_base example_schemas_redshift []
      = Inr ss" by blast
  have "length ss = 2"
    using s_out [OF ss, THEN conjunct1] by (simp add: example_schemas_base_def)
  moreover have "MetadataSchema.base (ss ! 1) =
      Some [(''database_name'', PStr ''dev''), (''schema_name'', PStr ''sales''),
            (''schema_owner'', PStr ''admin'')]"
    using s_out [OF ss, THEN conjunct2, rule_format, of 1]
    by (auto simp: example_schemas_base_def example_models_def construct_def)
  moreover from t_runs example_tables_decode obtain ts
    where ts: "MetadataTables example_models example_tables_base example_tables_all
      example_tables_redshift [] example_tables_info = Inr ts" by blast
  have "length ts = 2"
    using t_out [OF ts, THEN conjunct1] by (simp add: example_tables_base_def)
  moreover have "MetadataTable.base (ts ! 0) =
      Some [(''table_catalog'', PStr ''dev''), (''table_schema'', PStr ''public''),
            (''table_name'', PStr ''orders''), (''table_type'', PStr ''BASE TABLE'')]"
    using t_out [OF ts, THEN conjunct2, rule_format, of 0]
    by (auto simp: example_tables_base_def example_models_def construct_def)
  moreover from c_runs example_columns_decode obtain cs
    where cs: "MetadataColumns example_models example_columns_base example_columns_redshift []
      = Inr cs" by blast
  have "length cs = 2"
    using c_out [OF cs, THEN conjunct1] by (simp add: example_columns_base_def)
  moreover have "MetadataColumn.base (cs ! 1) =
      Some [(''database_name'', PStr ''dev''), (''schema_name'', PStr ''public''),
            (''table_name'', PStr ''orders''), (''column_name'', PStr ''total''),
            (''ordinal_position'', PInt 2), (''data_type'', PStr ''numeric'')]"
    using c_out [OF cs, THEN conjunct2, rule_format, of 1]
    by (auto simp: example_columns_base_def example_models_def construct_def)
  ultimately show ?thesis using ss ts cs by blast
qed

lemma list_all2_map_eq:
  "list_all2 (\<lambda>x m. g x = f m) xs ms \<Longrightarrow> map f ms = map g xs"
  by (induction xs ms rule: list_all2_induct) simp_all

lemma list_all2_set2:
  "list_all2 P xs ms \<Longrightarrow> m \<in> set ms \<Longrightarrow> \<exists>x\<in>set xs. P x m"
  by (induction xs ms rule: list_all2_induct) auto

lemma MetadataSchemas_identity:
  assumes "MetadataSchemas M sb sr se = Inr ms"
  shows "\<forall>m\<in>set ms. \<exists>b. MetadataSchema.base m = Some b \<and>
           getattr b ''database_name'' = Inr (MetadataSchema.database_name m) \<and>
           getattr b ''schema_name'' = Inr (MetadataSchema.schema_name m)"
    and "map (\<lambda>m. [Some (MetadataSchema.database_name m), Some (MetadataSchema.schema_name m)]) ms
         = map (identity_key (MetadataSchemaBase M) [''database_name'', ''schema_name'']) sb"
proof -
  note out = MetadataSchemas_outputs [OF assms]
  show "\<forall>m\<in>set ms. \<exists>b. MetadataSchema.base m = Some b \<and>
           getattr b ''database_name'' = Inr (MetadataSchema.database_name m) \<and>
           getattr b ''schema_name'' = Inr (MetadataSchema.schema_name m)"
    using list_all2_set2 [OF out] by (fastforce simp: getattr_Inr)
  from out have "list_all2 (\<lambda>x m.
      identity_key (MetadataSchemaBase M) [''database_name'', ''schema_name''] x
      = [Some (MetadataSchema.database_name m), Some (MetadataSchema.schema_name m)]) sb ms"
    by (rule list_all2_mono) (simp add: identity_key_def)
  then show "map (\<lambda>m. [Some (MetadataSchema.database_name m), Some (MetadataSchema.schema_name m)]) ms
         = map (identity_key (MetadataSchemaBase M) [''database_name'', ''schema_name'']) sb"
    by (rule list_all2_map_eq)
qed

lemma MetadataTables_identity:
  assumes "MetadataTables M tb ta tr te ti = Inr ms"
  shows "\<forall>m\<in>set ms. \<exists>b. MetadataTable.base m = Some b \<and>
           getattr b ''table_catalog'' = Inr (MetadataTable.database_name m) \<and>
           getattr b ''table_schema'' = Inr (MetadataTable.schema_name m) \<and>
           getattr b ''table_name'' = Inr (MetadataTable.table_name m)"
    and "map (\<lambda>m. [Some (MetadataTable.database_name m), Some (MetadataTable.schema_name m),
                   Some (MetadataTable.table_name m)]) ms
         = map (identity_key (MetadataTableBase M)
                  [''table_catalog'', ''table_schema'', ''table_name'']) tb"
proof -
  note out = MetadataTables_outputs [OF assms]
  show "\<forall>m\<in>set ms. \<exists>b. MetadataTable.base m = Some b \<and>
           getattr b ''table_catalog'' = Inr (MetadataTable.database_name m) \<and>
           getattr b ''table_schema'' = Inr (MetadataTable.schema_name m) \<and>
           getattr b ''table_name'' = Inr (MetadataTable.table_name m)"
    using list_all2_set2 [OF out] by (fastforce simp: getattr_Inr)
  from out have "list_all2 (\<lambda>x m.
      identity_key (MetadataTableBase M) [''table_catalog'', ''table_schema'', ''table_name''] x
      = [Some (MetadataTable.database_name m), Some (MetadataTable.schema_name m),
         Some (MetadataTable.table_name m)]) tb ms"
    by (rule list_all2_mono) (simp add: identity_key_def)
  then show "map (\<lambda>m. [Some (MetadataTable.database_name m), Some (MetadataTable.schema_name m),
                   Some (MetadataTable.table_name m)]) ms
         = map (identity_key (MetadataTableBase M)
                  [''table_catalog'', ''table_schema'', ''table_name'']) tb"
    by (rule list_all2_map_eq)
qed

lemma MetadataColumns_identity:
  assumes "MetadataColumns M cb cr ce = Inr ms"
  shows "\<forall>m\<in>set ms. \<exists>b. MetadataColumn.base m = Some b \<and>
           getattr b ''database_name'' = Inr (MetadataColumn.database_name m) \<and>
           getattr b ''schema_name'' = Inr (MetadataColumn.schema_name m) \<and>
           getattr b ''table_name'' = Inr (MetadataColumn.table_name m) \<and>
           getattr b ''column_name'' = Inr (MetadataColumn.column_name m) \<and>
           getattr b ''ordinal_position'' = Inr (MetadataColumn.ordinal_position m)"
    and "map (\<lambda>m. [Some (MetadataColumn.database_name m), Some (MetadataColumn.schema_name m),
                   Some (MetadataColumn.table_name m), Some (MetadataColumn.column_name m),
                   Some (MetadataColumn.ordinal_position m)]) ms
         = map (identity_key (MetadataColumnBase M)
                  [''database_name'', ''schema_name'', ''table_name'', ''column_name'',
                   ''ordinal_position'']) cb"
proof -
  note out = MetadataColumns_outputs [OF assms]
  show "\<forall>m\<in>set ms. \<exists>b. MetadataColumn.base m = Some b \<and>
           getattr b ''database_name'' = Inr (MetadataColumn.database_name m) \<and>
           getattr b ''schema_name'' = Inr (MetadataColumn.schema_name m) \<and>
           getattr b ''table_name'' = Inr (MetadataColumn.table_name m) \<and>
           getattr b ''column_name'' = Inr (MetadataColumn.column_name m) \<and>
           getattr b ''ordinal_position'' = Inr (MetadataColumn.ordinal_position m)"
    using list_all2_set2 [OF out] by (fastforce simp: getattr_Inr)
  from out have "list_all2 (\<lambda>x m.
      identity_key (MetadataColumnBase M)
        [''database_name'', ''schema_name'', ''table_name'', ''column_name'',
         ''ordinal_position''] x
      = [Some (MetadataColumn.database_name m), Some (MetadataColumn.schema_name m),
         Some (MetadataColumn.table_name m), Some (MetadataColumn.column_name m),
         Some (MetadataColumn.ordinal_position m)]) cb ms"
    by (rule list_all2_mono) (simp add: identity_key_def)
  then show "map (\<lambda>m. [Some (MetadataColumn.database_name m), Some (MetadataColumn.schema_name m),
                   Some (MetadataColumn.table_name m), Some (MetadataColumn.column_name m),
                   Some (MetadataColumn.ordinal_position m)]) ms
         = map (identity_key (MetadataColumnBase M)
                  [''database_name'', ''schema_name'', ''table_name'', ''column_name'',
                   ''ordinal_position'']) cb"
    by (rule list_all2_map_eq)
qed

text \<open>
  C8. In every merged object that an aligner returns, the identity-key fields are the
  values of the corresponding attributes of the object's own base record: for a table
  these are \<open>table_catalog\<close>, \<open>table_schema\<close> and \<open>table_name\<close>. The list of identity keys
  of the output is the list of identity keys of the base rows, whatever the auxiliary
  lists hold.
\<close>

theorem identity_key_copied_from_base:
  "(\<forall>ms. MetadataSchemas M sb sr se = Inr ms \<longrightarrow>
      (\<forall>m\<in>set ms. \<exists>b. MetadataSchema.base m = Some b \<and>
         getattr b ''database_name'' = Inr (MetadataSchema.database_name m) \<and>
         getattr b ''schema_name'' = Inr (MetadataSchema.schema_name m)) \<and>
      map (\<lambda>m. [Some (MetadataSchema.database_name m), Some (MetadataSchema.schema_name m)]) ms
        = map (identity_key (MetadataSchemaBase M) [''database_name'', ''schema_name'']) sb) \<and>
   (\<forall>ms. MetadataTables M tb ta tr te ti = Inr ms \<longrightarrow>
      (\<forall>m\<in>set ms. \<exists>b. MetadataTable.base m = Some b \<and>
         getattr b ''table_catalog'' = Inr (MetadataTable.database_name m) \<and>
         getattr b ''table_schema'' = Inr (MetadataTable.schema_name m) \<and>
         getattr b ''table_name'' = Inr (MetadataTable.table_name m)) \<and>
      map (\<lambda>m. [Some (MetadataTable.database_name m), Some (MetadataTable.schema_name m),
                Some (MetadataTable.table_name m)]) ms
        = map (identity_key (MetadataTableBase M)
                 [''table_catalog'', ''table_schema'', ''table_name'']) tb) \<and>
   (\<forall>ms. MetadataColumns M cb cr ce = Inr ms \<longrightarrow>
      (\<forall>m\<in>set ms. \<exists>b. MetadataColumn.base m = Some b \<and>
         getattr b ''database_name'' = Inr (MetadataColumn.database_name m) \<and>
         getattr b ''schema_name'' = Inr (MetadataColumn.schema_name m) \<and>
         getattr b ''table_name'' = Inr (MetadataColumn.table_name m) \<and>
         getattr b ''column_name'' = Inr (MetadataColumn.column_name m) \<and>
         getattr b ''ordinal_position'' = Inr (MetadataColumn.ordinal_position m)) \<and>
      map (\<lambda>m. [Some (MetadataColumn.database_name m), Some (MetadataColumn.schema_name m),
                Some (MetadataColumn.table_name m), Some (MetadataColumn.column_name m),
                Some (MetadataColumn.ordinal_position m)]) ms
        = map (identity_key (MetadataColumnBase M)
                 [''database_name'', ''schema_name'', ''table_name'', ''column_name'',
                  ''ordinal_position'']) cb)"
proof -
  note s = conjI [OF MetadataSchemas_identity [of M sb sr se]]
  note t = conjI [OF MetadataTables_identity [of M tb ta tr te ti]]
  note c = conjI [OF MetadataColumns_identity [of M cb cr ce]]
  show ?thesis
    apply (rule conjI, rule allI, rule impI, rule s, assumption, assumption)
    apply (rule conjI, rule allI, rule impI, rule t, assumption, assumption)
    apply (rule allI, rule impI, rule c, assumption, assumption)
    done
qed

theorem identity_key_copied_from_base_witness:
  "(\<exists>ms. MetadataSchemas example_models example_schemas_base example_schemas_redshift [] = Inr ms \<and>
      map (\<lambda>m. [Some (MetadataSchema.database_name m), Some (MetadataSchema.schema_name m)]) ms
        = [[Some (PStr ''dev''), Some (PStr ''public'')],
           [Some (PStr ''dev''), Some (PStr ''sales'')]]) \<and>
   (\<exists>ms. MetadataTables example_models example_tables_base example_tables_all
            example_tables_redshift [] example_tables_info = Inr ms \<and>
      map (\<lambda>m. [Some (MetadataTable.database_name m), Some (MetadataTable.schema_name m),
                Some (MetadataTable.table_name m)]) ms
        = [[Some (PStr ''dev''), Some (PStr ''public''), Some (PStr ''orders'')],
           [Some (PStr ''dev''), Some (PStr ''public''), Some (PStr ''totals'')]]) \<and>
   (\<exists>ms. MetadataColumns example_models example_columns_base example_columns_redshift [] = Inr ms \<and>
      map (\<lambda>m. [Some (MetadataColumn.database_name m), Some (MetadataColumn.schema_name m),
                Some (MetadataColumn.table_name m), Some (MetadataColumn.column_name m),
                Some (MetadataColumn.ordinal_position m)]) ms
        = [[Some (PStr ''dev''), Some (PStr ''public''), Some (PStr ''orders''),
            Some (PStr ''id''), Some (PInt 1)],
           [Some (PStr ''dev''), Some (PStr ''public''), Some (PStr ''orders''),
            Some (PStr ''total''), Some (PInt 2)]])"
proof -
  note t = identity_key_copied_from_base [where M = example_models
      and sb = example_schemas_base and sr = example_schemas_redshift and se = "[]"
      and tb = example_tables_base and ta = example_tables_all and tr = example_tables_redshift
      and te = "[]" and ti = example_tables_info
      and cb = example_columns_base and cr = example_columns_redshift and ce = "[]"]
  note s_id = t [THEN conjunct1, rule_format]
    and t_id = t [THEN conjunct2, THEN conjunct1, rule_format]
    and c_id = t [THEN conjunct2, THEN conjunct2, rule_format]
  from MetadataSchemas_total [OF example_schemas_decode] obtain ss
    where ss: "MetadataSchemas example_models example_schemas_base example_schemas_redshift []
      = Inr ss" by blast
  have s: "map (\<lambda>m. [Some (MetadataSchema.database_name m), Some (MetadataSchema.schema_name m)]) ss
        = [[Some (PStr ''dev''), Some (PStr ''public'')],
           [Some (PStr ''dev''), Some (PStr ''sales'')]]"
    using s_id [OF ss, THEN conjunct2]
    by (simp add: identity_key_def example_models_def example_schemas_base_def)
  from MetadataTables_total [OF example_tables_decode] obtain ts
    where ts: "MetadataTables example_models example_tables_base example_tables_all
      example_tables_redshift [] example_tables_info = Inr ts" by blast
  have t': "map (\<lambda>m. [Some (MetadataTable.database_name m), Some (MetadataTable.schema_name m),
                Some (MetadataTable.table_name m)]) ts
        = [[Some (PStr ''dev''), Some (PStr ''public''), Some (PStr ''orders'')],
           [Some (PStr ''dev''), Some (PStr ''public''), Some (PStr ''totals'')]]"
    using t_id [OF ts, THEN conjunct2]
    by (simp add: identity_key_def example_models_def example_tables_base_def)
  from MetadataColumns_total [OF example_columns_decode] obtain cs
    where cs: "MetadataColumns example_models example_columns_base example_columns_redshift []
      = Inr cs" by blast
  have c: "map (\<lambda>m. [Some (MetadataColumn.database_name m), Some (MetadataColumn.schema_name m),
                Some (MetadataColumn.table_name m), Some (MetadataColumn.column_name m),
                Some (MetadataColumn.ordinal_position m)]) cs
        = [[Some (PStr ''dev''), Some (PStr ''public''), Some (PStr ''orders''),
            Some (PStr ''id''), Some (PInt 1)],
           [Some (PStr ''dev''), Some (PStr ''public''), Some (PStr ''orders''),
            Some (PStr ''total''), Some (PInt 2)]]"
    using c_id [OF cs, THEN conjunct2]
    by (simp add: identity_key_def example_models_def example_columns_base_def)
  show ?thesis
    apply (rule conjI, rule exI [of _ ss], rule conjI [OF ss s])
    apply (rule conjI, rule exI [of _ ts], rule conjI [OF ts t'])
    apply (rule exI [of _ cs], rule conjI [OF cs c])
    done
qed

lemma example_schemas_runs:
  "MetadataSchemas_loop example_models (take 1 example_schemas_base) example_schemas_redshift []
     = Inr ([example_schema_public], 0, 0)"
  "MetadataSchemas_loop example_models (take (Suc 1) example_schemas_base) example_schemas_redshift []
     = Inr ([example_schema_public, example_schema_sales], 1, 0)"
  "MetadataSchemas_loop example_models example_schemas_base example_schemas_redshift []
     = Inr ([example_schema_public, example_schema_sales], 1, 0)"
  by code_simp+

lemma example_tables_runs:
  "MetadataTables_loop example_models (take 1 example_tables_base) example_tables_all
     example_tables_redshift [] example_tables_info = Inr ([example_table_orders], 0, 1, 0, 1)"
  "MetadataTables_loop example_models (take (Suc 1) example_tables_base) example_tables_all
     example_tables_redshift [] example_tables_info
     = Inr ([example_table_orders, example_table_totals], 1, 1, 0, 1)"
  "MetadataTables_loop example_models example_tables_base example_tables_all
     example_tables_redshift [] example_tables_info
     = Inr ([example_table_orders, example_table_totals], 1, 1, 0, 1)"
  by code_simp+

lemma example_columns_runs:
  "MetadataColumns_loop example_models (take 1 example_columns_base) example_columns_redshift []
     = Inr ([example_column_id], 0, 0)"
  "MetadataColumns_loop example_models (take (Suc 1) example_columns_base)
     example_columns_redshift [] = Inr ([example_column_id, example_column_total], 1, 0)"
  "MetadataColumns_loop example_models example_columns_base example_columns_redshift []
     = Inr ([example_column_id, example_column_total], 1, 0)"
  by code_simp+

lemma attach_cursor_moved:
  assumes "attach cls attrs rows i ks = Inr (slot, i')"
  shows "cursor_moved cls rows slot i i'"
proof (cases "i < length rows")
  case False
  with assms show ?thesis by (simp add: attach_def cursor_moved_def)
next
  case True
  with assms show ?thesis
    by (auto simp: attach_def cursor_moved_def ebind_eq_Inr split: if_splits)
qed

lemma MetadataSchemas_body_cursors:
  assumes "MetadataSchemas_body M sr se (ms, ri, ei) x = Inr (ms', ri', ei')"
  shows "\<exists>m. ms' = ms @ [m] \<and>
           cursor_moved (MetadataSchemaRedshift M) sr (MetadataSchema.redshift m) ri ri' \<and>
           cursor_moved (MetadataSchemaExternal M) se (MetadataSchema.external m) ei ei'"
  using assms
  by (rule MetadataSchemas_body_Inr) (auto dest!: attach_cursor_moved)

lemma MetadataTables_body_cursors:
  assumes "MetadataTables_body M ta tr te ti (ms, ai, ri, ei, ii) x = Inr (ms', ai', ri', ei', ii')"
  shows "\<exists>m. ms' = ms @ [m] \<and>
           cursor_moved (MetadataTableAll M) ta (MetadataTable.all m) ai ai' \<and>
           cursor_moved (MetadataTableRedshift M) tr (MetadataTable.redshift m) ri ri' \<and>
           cursor_moved (MetadataTableExternal M) te (MetadataTable.external m) ei ei' \<and>
           cursor_moved (MetadataTableInfo M) ti (MetadataTable.info m) ii ii'"
  using assms
  by (rule MetadataTables_body_Inr) (auto dest!: attach_cursor_moved)

lemma MetadataColumns_body_cursors:
  assumes "MetadataColumns_body M cr ce (ms, ri, ei) x = Inr (ms', ri', ei')"
  shows "\<exists>m. ms' = ms @ [m] \<and>
           cursor_moved (MetadataColumnRedshift M) cr (MetadataColumn.redshift m) ri ri' \<and>
           cursor_moved (MetadataColumnExternal M) ce (MetadataColumn.external m) ei ei'"
  using assms
  by (rule MetadataColumns_body_Inr) (auto dest!: attach_cursor_moved)

lemma for_each_next_state:
  assumes "n < length xs" "for_each body (take n xs) s = Inr t"
    "for_each body (take (Suc n) xs) s = Inr t'"
  shows "body t (xs ! n) = Inr t'"
  using assms by (simp add: for_each_take_Suc)

text \<open>
  C3. The state of a run after \<open>n\<close> base rows is the state of the loop on the first \<open>n\<close>
  rows of the base list. From one base row to the next, each auxiliary cursor either stays
  where it is, and then the slot of the new merged object is empty, or it grows by exactly
  one, and then the slot holds the decoded auxiliary row that was under the cursor.
\<close>

theorem cursors_advance_only_on_attach:
  "(i < length sb \<and>
    MetadataSchemas_loop M (take i sb) sr se = Inr (ss, sri, sei) \<and>
    MetadataSchemas_loop M (take (Suc i) sb) sr se = Inr (ss', sri', sei')
      \<longrightarrow> (\<exists>m. ss' = ss @ [m] \<and>
             cursor_moved (MetadataSchemaRedshift M) sr (MetadataSchema.redshift m) sri sri' \<and>
             cursor_moved (MetadataSchemaExternal M) se (MetadataSchema.external m) sei sei')) \<and>
   (j < length tb \<and>
    MetadataTables_loop M (take j tb) ta tr te ti = Inr (ts, tai, tri, tei, tii) \<and>
    MetadataTables_loop M (take (Suc j) tb) ta tr te ti = Inr (ts', tai', tri', tei', tii')
      \<longrightarrow> (\<exists>m. ts' = ts @ [m] \<and>
             cursor_moved (MetadataTableAll M) ta (MetadataTable.all m) tai tai' \<and>
             cursor_moved (MetadataTableRedshift M) tr (MetadataTable.redshift m) tri tri' \<and>
             cursor_moved (MetadataTableExternal M) te (MetadataTable.external m) tei tei' \<and>
             cursor_moved (MetadataTableInfo M) ti (MetadataTable.info m) tii tii')) \<and>
   (k < length cb \<and>
    MetadataColumns_loop M (take k cb) cr ce = Inr (cs, cri, cei) \<and>
    MetadataColumns_loop M (take (Suc k) cb) cr ce = Inr (cs', cri', cei')
      \<longrightarrow> (\<exists>m. cs' = cs @ [m] \<and>
             cursor_moved (MetadataColumnRedshift M) cr (MetadataColumn.redshift m) cri cri' \<and>
             cursor_moved (MetadataColumnExternal M) ce (MetadataColumn.external m) cei cei'))"
proof -
  have s: "\<exists>m. ss' = ss @ [m] \<and>
      cursor_moved (MetadataSchemaRedshift M) sr (MetadataSchema.redshift m) sri sri' \<and>
      cursor_moved (MetadataSchemaExternal M) se (MetadataSchema.external m) sei sei'"
    if "i < length sb \<and>
      MetadataSchemas_loop M (take i sb) sr se = Inr (ss, sri, sei) \<and>
      MetadataSchemas_loop M (take (Suc i) sb) sr se = Inr (ss', sri', sei')"
  proof -
    from that have "MetadataSchemas_body M sr se (ss, sri, sei) (sb ! i) = Inr (ss', sri', sei')"
      unfolding MetadataSchemas_loop_def by (blast intro: for_each_next_state)
    then show ?thesis by (rule MetadataSchemas_body_cursors)
  qed
  have t: "\<exists>m. ts' = ts @ [m] \<and>
      cursor_moved (MetadataTableAll M) ta (MetadataTable.all m) tai tai' \<and>
      cursor_moved (MetadataTableRedshift M) tr (MetadataTable.redshift m) tri tri' \<and>
      cursor_moved (MetadataTableExternal M) te (MetadataTable.external m) tei tei' \<and>
      cursor_moved (MetadataTableInfo M) ti (MetadataTable.info m) tii tii'"
    if "j < length tb \<and>
      MetadataTables_loop M (take j tb) ta tr te ti = Inr (ts, tai, tri, tei, tii) \<and>
      MetadataTables_loop M (take (Suc j) tb) ta tr te ti = Inr (ts', tai', tri', tei', tii')"
  proof -
    from that have "MetadataTables_body M ta tr te ti (ts, tai, tri, tei, tii) (tb ! j)
        = Inr (ts', tai', tri', tei', tii')"
      unfolding MetadataTables_loop_def by (blast intro: for_each_next_state)
    then show ?thesis by (rule MetadataTables_body_cursors)
  qed
  have c: "\<exists>m. cs' = cs @ [m] \<and>
      cursor_moved (MetadataColumnRedshift M) cr (MetadataColumn.redshift m) cri cri' \<and>
      cursor_moved (MetadataColumnExternal M) ce (MetadataColumn.external m) cei cei'"
    if "k < length cb \<and>
      MetadataColumns_loop M (take k cb) cr ce = Inr (cs, cri, cei) \<and>
      MetadataColumns_loop M (take (Suc k) cb) cr ce = Inr (cs', cri', cei')"
  proof -
    from that have "MetadataColumns_body M cr ce (cs, cri, cei) (cb ! k) = Inr (cs', cri', cei')"
      unfolding MetadataColumns_loop_def by (blast intro: for_each_next_state)
    then show ?thesis by (rule MetadataColumns_body_cursors)
  qed
  show ?thesis
    apply (rule conjI, rule impI, erule s)
    apply (rule conjI, rule impI, erule t)
    apply (rule impI, erule c)
    done
qed

theorem cursors_advance_only_on_attach_witness:
  "(\<exists>m. [example_schema_public, example_schema_sales] = [example_schema_public] @ [m] \<and>
      cursor_moved (MetadataSchemaRedshift example_models) example_schemas_redshift
        (MetadataSchema.redshift m) 0 1 \<and>
      cursor_moved (MetadataSchemaExternal example_models) [] (MetadataSchema.external m) 0 0) \<and>
   (\<exists>m. [example_table_orders, example_table_totals] = [example_table_orders] @ [m] \<and>
      cursor_moved (MetadataTableAll example_models) example_tables_all (MetadataTable.all m) 0 1 \<and>
      cursor_moved (MetadataTableRedshift example_models) example_tables_redshift
        (MetadataTable.redshift m) 1 1 \<and>
      cursor_moved (MetadataTableExternal example_models) [] (MetadataTable.external m) 0 0 \<and>
      cursor_moved (MetadataTableInfo example_models) example_tables_info
        (MetadataTable.info m) 1 1) \<and>
   (\<exists>m. [example_column_id, example_column_total] = [example_column_id] @ [m] \<and>
      cursor_moved (MetadataColumnRedshift example_models) example_columns_redshift
        (MetadataColumn.redshift m) 0 1 \<and>
      cursor_moved (MetadataColumnExternal example_models) [] (MetadataColumn.external m) 0 0)"
proof -
  note t = cursors_advance_only_on_attach [where M = example_models
      and i = 1 and sb = example_schemas_base and sr = example_schemas_redshift and se = "[]"
      and ss = "[example_schema_public]" and sri = 0 and sei = 0
      and ss' = "[example_schema_public, example_schema_sales]" and sri' = 1 and sei' = 0
      and j = 1 and tb = example_tables_base and ta = example_tables_all
      and tr = example_tables_redshift and te = "[]" and ti = example_tables_info
      and ts = "[example_table_orders]" and tai = 0 and tri = 1 and tei = 0 and tii = 1
      and ts' = "[example_table_orders, example_table_totals]"
      and tai' = 1 and tri' = 1 and tei' = 0 and tii' = 1
      and k = 1 and cb = example_columns_base and cr = example_columns_redshift and ce = "[]"
      and cs = "[example_column_id]" and cri = 0 and cei = 0
      and cs' = "[example_column_id, example_column_total]" and cri' = 1 and cei' = 0]
  have len: "1 < length example_schemas_base" "1 < length example_tables_base"
    "1 < length example_columns_base"
    by (simp_all add: example_schemas_base_def example_tables_base_def example_columns_base_def)
  show ?thesis
    apply (rule conjI)
     apply (rule t [THEN conjunct1, THEN mp])
     apply (simp only: len example_schemas_runs simp_thms)
    apply (rule conjI)
     apply (rule t [THEN conjunct2, THEN conjunct1, THEN mp])
     apply (simp only: len example_tables_runs simp_thms)
    apply (rule t [THEN conjunct2, THEN conjunct2, THEN mp])
    apply (simp only: len example_columns_runs simp_thms)
    done
qed

section \<open>Which slots an aligner fills\<close>

lemma MetadataSchemas_body_step:
  assumes "MetadataSchemas_body M sr se s x = Inr s'"
  shows "\<exists>ks m. fst s' = fst s @ [m] \<and>
      length [''database_name'', ''schema_name''] = length ks \<and>
      identity_key (MetadataSchemaBase M) [''database_name'', ''schema_name''] x = map Some ks \<and>
      attach (MetadataSchemaRedshift M) [''database_name'', ''schema_name''] sr (fst (snd s)) ks
        = Inr (MetadataSchema.redshift m, fst (snd s'))"
    and "\<exists>ks m. fst s' = fst s @ [m] \<and>
      length [''databasename'', ''schemaname''] = length ks \<and>
      identity_key (MetadataSchemaBase M) [''database_name'', ''schema_name''] x = map Some ks \<and>
      attach (MetadataSchemaExternal M) [''databasename'', ''schemaname''] se (snd (snd s)) ks
        = Inr (MetadataSchema.external m, snd (snd s'))"
proof -
  obtain ms0 ri0 ei0 where s: "s = (ms0, ri0, ei0)" by (cases s) auto
  from assms [unfolded s] obtain db sn m ri' ei' where
    k: "identity_key (MetadataSchemaBase M) [''database_name'', ''schema_name''] x
          = map Some [db, sn]"
    and s': "s' = (ms0 @ [m], ri', ei')"
    and r: "attach (MetadataSchemaRedshift M) [''database_name'', ''schema_name''] sr ri0 [db, sn]
          = Inr (MetadataSchema.redshift m, ri')"
    and e: "attach (MetadataSchemaExternal M) [''databasename'', ''schemaname''] se ei0 [db, sn]
          = Inr (MetadataSchema.external m, ei')"
    by (rule MetadataSchemas_body_Inr) (simp add: identity_key_def)
  show "\<exists>ks m. fst s' = fst s @ [m] \<and>
      length [''database_name'', ''schema_name''] = length ks \<and>
      identity_key (MetadataSchemaBase M) [''database_name'', ''schema_name''] x = map Some ks \<and>
      attach (MetadataSchemaRedshift M) [''database_name'', ''schema_name''] sr (fst (snd s)) ks
        = Inr (MetadataSchema.redshift m, fst (snd s'))"
    by (intro exI [of _ "[db, sn]"] exI [of _ m]) (simp add: s s' k r)
  show "\<exists>ks m. fst s' = fst s @ [m] \<and>
      length [''databasename'', ''schemaname''] = length ks \<and>
      identity_key (MetadataSchemaBase M) [''database_name'', ''schema_name''] x = map Some ks \<and>
      attach (MetadataSchemaExternal M) [''databasename'', ''schemaname''] se (snd (snd s)) ks
        = Inr (MetadataSchema.external m, snd (snd s'))"
    by (intro exI [of _ "[db, sn]"] exI [of _ m]) (simp add: s s' k e)
qed

lemma MetadataSchemas_slots:
  assumes run: "MetadataSchemas M sb sr se = Inr ms"
    and dist: "distinct (map (identity_key (MetadataSchemaBase M)
                 [''database_name'', ''schema_name'']) sb)"
  shows "subseq (map (identity_key (MetadataSchemaRedshift M) [''database_name'', ''schema_name'']) sr)
           (map (identity_key (MetadataSchemaBase M) [''database_name'', ''schema_name'']) sb) \<Longrightarrow>
         list_all2 (\<lambda>x m. MetadataSchema.redshift m \<noteq> None \<longleftrightarrow>
           identity_key (MetadataSchemaBase M) [''database_name'', ''schema_name''] x
             \<in> set (map (identity_key (MetadataSchemaRedshift M)
                     [''database_name'', ''schema_name'']) sr)) sb ms"
    and "subseq (map (identity_key (MetadataSchemaExternal M) [''databasename'', ''schemaname'']) se)
           (map (identity_key (MetadataSchemaBase M) [''database_name'', ''schema_name'']) sb) \<Longrightarrow>
         list_all2 (\<lambda>x m. MetadataSchema.external m \<noteq> None \<longleftrightarrow>
           identity_key (MetadataSchemaBase M) [''database_name'', ''schema_name''] x
             \<in> set (map (identity_key (MetadataSchemaExternal M)
                     [''databasename'', ''schemaname'']) se)) sb ms"
proof -
  from run obtain ri ei
    where loop: "for_each (MetadataSchemas_body M sr se) sb ([], 0, 0) = Inr (ms, ri, ei)"
    by (auto simp: MetadataSchemas_def MetadataSchemas_loop_def ebind_eq_Inr)
  note c = for_each_cursor [where body = "MetadataSchemas_body M sr se" and out = fst
      and s = "([], 0, 0)" and s' = "(ms, ri, ei)", OF _ loop dist]
  show "subseq (map (identity_key (MetadataSchemaRedshift M) [''database_name'', ''schema_name'']) sr)
           (map (identity_key (MetadataSchemaBase M) [''database_name'', ''schema_name'']) sb) \<Longrightarrow>
         list_all2 (\<lambda>x m. MetadataSchema.redshift m \<noteq> None \<longleftrightarrow>
           identity_key (MetadataSchemaBase M) [''database_name'', ''schema_name''] x
             \<in> set (map (identity_key (MetadataSchemaRedshift M)
                     [''database_name'', ''schema_name'']) sr)) sb ms"
    using c [where cur = "\<lambda>s. fst (snd s)" and slot = MetadataSchema.redshift,
        OF MetadataSchemas_body_step(1)]
    by simp
  show "subseq (map (identity_key (MetadataSchemaExternal M) [''databasename'', ''schemaname'']) se)
           (map (identity_key (MetadataSchemaBase M) [''database_name'', ''schema_name'']) sb) \<Longrightarrow>
         list_all2 (\<lambda>x m. MetadataSchema.external m \<noteq> None \<longleftrightarrow>
           identity_key (MetadataSchemaBase M) [''database_name'', ''schema_name''] x
             \<in> set (map (identity_key (MetadataSchemaExternal M)
                     [''databasename'', ''schemaname'']) se)) sb ms"
    using c [where cur = "\<lambda>s. snd (snd s)" and slot = MetadataSchema.external,
        OF MetadataSchemas_body_step(2)]
    by simp
qed

lemma MetadataTables_body_step:
  assumes "MetadataTables_body M ta tr te ti s x = Inr s'"
  shows "\<exists>ks m. fst s' = fst s @ [m] \<and>
      length [''database_name'', ''schema_name'', ''table_name''] = length ks \<and>
      identity_key (MetadataTableBase M) [''table_catalog'', ''table_schema'', ''table_name''] x = map Some ks \<and>
      attach (MetadataTableAll M) [''database_name'', ''schema_name'', ''table_name''] ta (fst (snd s)) ks
        = Inr (MetadataTable.all m, fst (snd s'))"
    and "\<exists>ks m. fst s' = fst s @ [m] \<and>
      length [''database_name'', ''schema_name'', ''table_name''] = length ks \<and>
      identity_key (MetadataTableBase M) [''table_catalog'', ''table_schema'', ''table_name''] x = map Some ks \<and>
      attach (MetadataTableRedshift M) [''database_name'', ''schema_name'', ''table_name''] tr (fst (snd (snd s))) ks
        = Inr (MetadataTable.redshift m, fst (snd (snd s')))"
    and "\<exists>ks m. fst s' = fst s @ [m] \<and>
      length [''databasename'', ''schemaname'', ''tablename''] = length ks \<and>
      identity_key (MetadataTableBase M) [''table_catalog'', ''table_schema'', ''table_name''] x = map Some ks \<and>
      attach (MetadataTableExternal M) [''databasename'', ''schemaname'', ''tablename''] te (fst (snd (snd (snd s)))) ks
        = Inr (MetadataTable.external m, fst (snd (snd (snd s'))))"
    and "\<exists>ks m. fst s' = fst s @ [m] \<and>
      length [''database'', ''schema'', ''table''] = length ks \<and>
      identity_key (MetadataTableBase M) [''table_catalog'', ''table_schema'', ''table_name''] x = map Some ks \<and>
      attach (MetadataTableInfo M) [''database'', ''schema'', ''table''] ti (snd (snd (snd (snd s)))) ks
        = Inr (MetadataTable.info m, snd (snd (snd (snd s'))))"
proof -
  obtain ms0 ai0 ri0 ei0 ii0 where s: "s = (ms0, ai0, ri0, ei0, ii0)" by (cases s) auto
  from assms [unfolded s] obtain db sn tn m ai' ri' ei' ii' where
    k: "identity_key (MetadataTableBase M) [''table_catalog'', ''table_schema'', ''table_name''] x
          = map Some [db, sn, tn]"
    and s': "s' = (ms0 @ [m], ai', ri', ei', ii')"
    and a_all: "attach (MetadataTableAll M) [''database_name'', ''schema_name'', ''table_name''] ta ai0 [db, sn, tn]
          = Inr (MetadataTable.all m, ai')"
    and a_redshift: "attach (MetadataTableRedshift M) [''database_name'', ''schema_name'', ''table_name''] tr ri0 [db, sn, tn]
          = Inr (MetadataTable.redshift m, ri')"
    and a_external: "attach (MetadataTableExternal M) [''databasename'', ''schemaname'', ''tablename''] te ei0 [db, sn, tn]
          = Inr (MetadataTable.external m, ei')"
    and a_info: "attach (MetadataTableInfo M) [''database'', ''schema'', ''table''] ti ii0 [db, sn, tn]
          = Inr (MetadataTable.info m, ii')"
    by (rule MetadataTables_body_Inr) (simp add: identity_key_def)
  show "\<exists>ks m. fst s' = fst s @ [m] \<and>
      length [''database_name'', ''schema_name'', ''table_name''] = length ks \<and>
      identity_key (MetadataTableBase M) [''table_catalog'', ''table_schema'', ''table_name''] x = map Some ks \<and>
      attach (MetadataTableAll M) [''database_name'', ''schema_name'', ''table_name''] ta (fst (snd s)) ks
        = Inr (MetadataTable.all m, fst (snd s'))"
    by (intro exI [of _ "[db, sn, tn]"] exI [of _ m]) (simp add: s s' k a_all)
  show "\<exists>ks m. fst s' = fst s @ [m] \<and>
      length [''database_name'', ''schema_name'', ''table_name''] = length ks \<and>
      identity_key (MetadataTableBase M) [''table_catalog'', ''table_schema'', ''table_name''] x = map Some ks \<and>
      attach (MetadataTableRedshift M) [''database_name'', ''schema_name'', ''table_name''] tr (fst (snd (snd s))) ks
        = Inr (MetadataTable.redshift m, fst (snd (snd s')))"
    by (intro exI [of _ "[db, sn, tn]"] exI [of _ m]) (simp add: s s' k a_redshift)
  show "\<exists>ks m. fst s' = fst s @ [m] \<and>
      length [''databasename'', ''schemaname'', ''tablename''] = length ks \<and>
      identity_key (MetadataTableBase M) [''table_catalog'', ''table_schema'', ''table_name''] x = map Some ks \<and>
      attach (MetadataTableExternal M) [''databasename'', ''schemaname'', ''tablename''] te (fst (snd (snd (snd s)))) ks
        = Inr (MetadataTable.external m, fst (snd (snd (snd s'))))"
    by (intro exI [of _ "[db, sn, tn]"] exI [of _ m]) (simp add: s s' k a_external)
  show "\<exists>ks m. fst s' = fst s @ [m] \<and>
      length [''database'', ''schema'', ''table''] = length ks \<and>
      identity_key (MetadataTableBase M) [''table_catalog'', ''table_schema'', ''table_name''] x = map Some ks \<and>
      attach (MetadataTableInfo M) [''database'', ''schema'', ''table''] ti (snd (snd (snd (snd s)))) ks
        = Inr (MetadataTable.info m, snd (snd (snd (snd s'))))"
    by (intro exI [of _ "[db, sn, tn]"] exI [of _ m]) (simp add: s s' k a_info)
qed

lemma MetadataTables_slots:
  assumes run: "MetadataTables M tb ta tr te ti = Inr ms"
    and dist: "distinct (map (identity_key (MetadataTableBase M) [''table_catalog'', ''table_schema'', ''table_name'']) tb)"
  shows "subseq (map (identity_key (MetadataTableAll M) [''database_name'', ''schema_name'', ''table_name'']) ta)
           (map (identity_key (MetadataTableBase M) [''table_catalog'', ''table_schema'', ''table_name'']) tb) \<Longrightarrow>
         list_all2 (\<lambda>x m. MetadataTable.all m \<noteq> None \<longleftrightarrow>
           identity_key (MetadataTableBase M) [''table_catalog'', ''table_schema'', ''table_name''] x
             \<in> set (map (identity_key (MetadataTableAll M) [''database_name'', ''schema_name'', ''table_name'']) ta)) tb ms"
    and "subseq (map (identity_key (MetadataTableRedshift M) [''database_name'', ''schema_name'', ''table_name'']) tr)
           (map (identity_key (MetadataTableBase M) [''table_catalog'', ''table_schema'', ''table_name'']) tb) \<Longrightarrow>
         list_all2 (\<lambda>x m. MetadataTable.redshift m \<noteq> None \<longleftrightarrow>
           identity_key (MetadataTableBase M) [''table_catalog'', ''table_schema'', ''table_name''] x
             \<in> set (map (identity_key (MetadataTableRedshift M) [''database_name'', ''schema_name'', ''table_name'']) tr)) tb ms"
    and "subseq (map (identity_key (MetadataTableExternal M) [''databasename'', ''schemaname'', ''tablename'']) te)
           (map (identity_key (MetadataTableBase M) [''table_catalog'', ''table_schema'', ''table_name'']) tb) \<Longrightarrow>
         list_all2 (\<lambda>x m. MetadataTable.external m \<noteq> None \<longleftrightarrow>
           identity_key (MetadataTableBase M) [''table_catalog'', ''table_schema'', ''table_name''] x
             \<in> set (map (identity_key (MetadataTableExternal M) [''databasename'', ''schemaname'', ''tablename'']) te)) tb ms"
    and "subseq (map (identity_key (MetadataTableInfo M) [''database'', ''schema'', ''table'']) ti)
           (map (identity_key (MetadataTableBase M) [''table_catalog'', ''table_schema'', ''table_name'']) tb) \<Longrightarrow>
         list_all2 (\<lambda>x m. MetadataTable.info m \<noteq> None \<longleftrightarrow>
           identity_key (MetadataTableBase M) [''table_catalog'', ''table_schema'', ''table_name''] x
             \<in> set (map (identity_key (MetadataTableInfo M) [''database'', ''schema'', ''table'']) ti)) tb ms"
proof -
  from run obtain ai ri ei ii
    where loop: "for_each (MetadataTables_body M ta tr te ti) tb ([], 0, 0, 0, 0) = Inr (ms, ai, ri, ei, ii)"
    by (auto simp: MetadataTables_def MetadataTables_loop_def ebind_eq_Inr)
  note c = for_each_cursor [where body = "MetadataTables_body M ta tr te ti" and out = fst
      and s = "([], 0, 0, 0, 0)" and s' = "(ms, ai, ri, ei, ii)", OF _ loop dist]
  show "subseq (map (identity_key (MetadataTableAll M) [''database_name'', ''schema_name'', ''table_name'']) ta)
           (map (identity_key (MetadataTableBase M) [''table_catalog'', ''table_schema'', ''table_name'']) tb) \<Longrightarrow>
         list_all2 (\<lambda>x m. MetadataTable.all m \<noteq> None \<longleftrightarrow>
           identity_key (MetadataTableBase M) [''table_catalog'', ''table_schema'', ''table_name''] x
             \<in> set (map (identity_key (MetadataTableAll M) [''database_name'', ''schema_name'', ''table_name'']) ta)) tb ms"
    using c [where cur = "\<lambda>s. fst (snd s)" and slot = MetadataTable.all,
        OF MetadataTables_body_step(1)]
    by simp
  show "subseq (map (identity_key (MetadataTableRedshift M) [''database_name'', ''schema_name'', ''table_name'']) tr)
           (map (identity_key (MetadataTableBase M) [''table_catalog'', ''table_schema'', ''table_name'']) tb) \<Longrightarrow>
         list_all2 (\<lambda>x m. MetadataTable.redshift m \<noteq> None \<longleftrightarrow>
           identity_key (MetadataTableBase M) [''table_catalog'', ''table_schema'', ''table_name''] x
             \<in> set (map (identity_key (MetadataTableRedshift M) [''database_name'', ''schema_name'', ''table_name'']) tr)) tb ms"
    using c [where cur = "\<lambda>s. fst (snd (snd s))" and slot = MetadataTable.redshift,
        OF MetadataTables_body_step(2)]
    by simp
  show "subseq (map (identity_key (MetadataTableExternal M) [''databasename'', ''schemaname'', ''tablename'']) te)
           (map (identity_key (MetadataTableBase M) [''table_catalog'', ''table_schema'', ''table_name'']) tb) \<Longrightarrow>
         list_all2 (\<lambda>x m. MetadataTable.external m \<noteq> None \<longleftrightarrow>
           identity_key (MetadataTableBase M) [''table_catalog'', ''table_schema'', ''table_name''] x
             \<in> set (map (identity_key (MetadataTableExternal M) [''databasename'', ''schemaname'', ''tablename'']) te)) tb ms"
    using c [where cur = "\<lambda>s. fst (snd (snd (snd s)))" and slot = MetadataTable.external,
        OF MetadataTables_body_step(3)]
    by simp
  show "subseq (map (identity_key (MetadataTableInfo M) [''database'', ''schema'', ''table'']) ti)
           (map (identity_key (MetadataTableBase M) [''table_catalog'', ''table_schema'', ''table_name'']) tb) \<Longrightarrow>
         list_all2 (\<lambda>x m. MetadataTable.info m \<noteq> None \<longleftrightarrow>
           identity_key (MetadataTableBase M) [''table_catalog'', ''table_schema'', ''table_name''] x
             \<in> set (map (identity_key (MetadataTableInfo M) [''database'', ''schema'', ''table'']) ti)) tb ms"
    using c [where cur = "\<lambda>s. snd (snd (snd (snd s)))" and slot = MetadataTable.info,
        OF MetadataTables_body_step(4)]
    by simp
qed

lemma MetadataColumns_body_step:
  assumes "MetadataColumns_body M cr ce s x = Inr s'"
  shows "\<exists>ks m. fst s' = fst s @ [m] \<and>
      length [''database_name'', ''schema_name'', ''table_name'', ''ordinal_position''] = length ks \<and>
      identity_key (MetadataColumnBase M) [''database_name'', ''schema_name'', ''table_name'', ''ordinal_position''] x = map Some ks \<and>
      attach (MetadataColumnRedshift M) [''database_name'', ''schema_name'', ''table_name'', ''ordinal_position''] cr (fst (snd s)) ks
        = Inr (MetadataColumn.redshift m, fst (snd s'))"
    and "\<exists>ks m. fst s' = fst s @ [m] \<and>
      length [''databasename'', ''schemaname'', ''tablename'', ''columnnum''] = length ks \<and>
      identity_key (MetadataColumnBase M) [''database_name'', ''schema_name'', ''table_name'', ''ordinal_position''] x = map Some ks \<and>
      attach (MetadataColumnExternal M) [''databasename'', ''schemaname'', ''tablename'', ''columnnum''] ce (snd (snd s)) ks
        = Inr (MetadataColumn.external m, snd (snd s'))"
proof -
  obtain ms0 ri0 ei0 where s: "s = (ms0, ri0, ei0)" by (cases s) auto
  from assms [unfolded s] obtain db sn tn pos m ri' ei' where
    k: "identity_key (MetadataColumnBase M) [''database_name'', ''schema_name'', ''table_name'', ''ordinal_position''] x
          = map Some [db, sn, tn, pos]"
    and s': "s' = (ms0 @ [m], ri', ei')"
    and a_redshift: "attach (MetadataColumnRedshift M) [''database_name'', ''schema_name'', ''table_name'', ''ordinal_position''] cr ri0 [db, sn, tn, pos]
          = Inr (MetadataColumn.redshift m, ri')"
    and a_external: "attach (MetadataColumnExternal M) [''databasename'', ''schemaname'', ''tablename'', ''columnnum''] ce ei0 [db, sn, tn, pos]
          = Inr (MetadataColumn.external m, ei')"
    by (rule MetadataColumns_body_Inr) (simp add: identity_key_def)
  show "\<exists>ks m. fst s' = fst s @ [m] \<and>
      length [''database_name'', ''schema_name'', ''table_name'', ''ordinal_position''] = length ks \<and>
      identity_key (MetadataColumnBase M) [''database_name'', ''schema_name'', ''table_name'', ''ordinal_position''] x = map Some ks \<and>
      attach (MetadataColumnRedshift M) [''database_name'', ''schema_name'', ''table_name'', ''ordinal_position''] cr (fst (snd s)) ks
        = Inr (MetadataColumn.redshift m, fst (snd s'))"
    by (intro exI [of _ "[db, sn, tn, pos]"] exI [of _ m]) (simp add: s s' k a_redshift)
  show "\<exists>ks m. fst s' = fst s @ [m] \<and>
      length [''databasename'', ''schemaname'', ''tablename'', ''columnnum''] = length ks \<and>
      identity_key (MetadataColumnBase M) [''database_name'', ''schema_name'', ''table_name'', ''ordinal_position''] x = map Some ks \<and>
      attach (MetadataColumnExternal M) [''databasename'', ''schemaname'', ''tablename'', ''columnnum''] ce (snd (snd s)) ks
        = Inr (MetadataColumn.external m, snd (snd s'))"
    by (intro exI [of _ "[db, sn, tn, pos]"] exI [of _ m]) (simp add: s s' k a_external)
qed

lemma MetadataColumns_slots:
  assumes run: "MetadataColumns M cb cr ce = Inr ms"
    and dist: "distinct (map (identity_key (MetadataColumnBase M) [''database_name'', ''schema_name'', ''table_name'', ''ordinal_position'']) cb)"
  shows "subseq (map (identity_key (MetadataColumnRedshift M) [''database_name'', ''schema_name'', ''table_name'', ''ordinal_position'']) cr)
           (map (identity_key (MetadataColumnBase M) [''database_name'', ''schema_name'', ''table_name'', ''ordinal_position'']) cb) \<Longrightarrow>
         list_all2 (\<lambda>x m. MetadataColumn.redshift m \<noteq> None \<longleftrightarrow>
           identity_key (MetadataColumnBase M) [''database_name'', ''schema_name'', ''table_name'', ''ordinal_position''] x
             \<in> set (map (identity_key (MetadataColumnRedshift M) [''database_name'', ''schema_name'', ''table_name'', ''ordinal_position'']) cr)) cb ms"
    and "subseq (map (identity_key (MetadataColumnExternal M) [''databasename'', ''schemaname'', ''tablename'', ''columnnum'']) ce)
           (map (identity_key (MetadataColumnBase M) [''database_name'', ''schema_name'', ''table_name'', ''ordinal_position'']) cb) \<Longrightarrow>
         list_all2 (\<lambda>x m. MetadataColumn.external m \<noteq> None \<longleftrightarrow>
           identity_key (MetadataColumnBase M) [''database_name'', ''schema_name'', ''table_name'', ''ordinal_position''] x
             \<in> set (map (identity_key (MetadataColumnExternal M) [''databasename'', ''schemaname'', ''tablename'', ''columnnum'']) ce)) cb ms"
proof -
  from run obtain ri ei
    where loop: "for_each (MetadataColumns_body M cr ce) cb ([], 0, 0) = Inr (ms, ri, ei)"
    by (auto simp: MetadataColumns_def MetadataColumns_loop_def ebind_eq_Inr)
  note c = for_each_cursor [where body = "MetadataColumns_body M cr ce" and out = fst
      and s = "([], 0, 0)" and s' = "(ms, ri, ei)", OF _ loop dist]
  show "subseq (map (identity_key (MetadataColumnRedshift M) [''database_name'', ''schema_name'', ''table_name'', ''ordinal_position'']) cr)
           (map (identity_key (MetadataColumnBase M) [''database_name'', ''schema_name'', ''table_name'', ''ordinal_position'']) cb) \<Longrightarrow>
         list_all2 (\<lambda>x m. MetadataColumn.redshift m \<noteq> None \<longleftrightarrow>
           identity_key (MetadataColumnBase M) [''database_name'', ''schema_name'', ''table_name'', ''ordinal_position''] x
             \<in> set (map (identity_key (MetadataColumnRedshift M) [''database_name'', ''schema_name'', ''table_name'', ''ordinal_position'']) cr)) cb ms"
    using c [where cur = "\<lambda>s. fst (snd s)" and slot = MetadataColumn.redshift,
        OF MetadataColumns_body_step(1)]
    by simp
  show "subseq (map (identity_key (MetadataColumnExternal M) [''databasename'', ''schemaname'', ''tablename'', ''columnnum'']) ce)
           (map (identity_key (MetadataColumnBase M) [''database_name'', ''schema_name'', ''table_name'', ''ordinal_position'']) cb) \<Longrightarrow>
         list_all2 (\<lambda>x m. MetadataColumn.external m \<noteq> None \<longleftrightarrow>
           identity_key (MetadataColumnBase M) [''database_name'', ''schema_name'', ''table_name'', ''ordinal_position''] x
             \<in> set (map (identity_key (MetadataColumnExternal M) [''databasename'', ''schemaname'', ''tablename'', ''columnnum'']) ce)) cb ms"
    using c [where cur = "\<lambda>s. snd (snd s)" and slot = MetadataColumn.external,
        OF MetadataColumns_body_step(2)]
    by simp
qed

section \<open>Claims about dependency extraction\<close>

lemma split_dot_not_Nil [simp]: "split_dot t \<noteq> []"
  by (induction t) (auto split: list.splits)

lemma split_dot_length: "length (split_dot t) = Suc (count_list t CHR ''.'')"
  by (induction t) (auto split: list.splits)

lemma split_dot_no_dot: "w \<in> set (split_dot t) \<Longrightarrow> CHR ''.'' \<notin> set w"
  by (induction t arbitrary: w) (auto split: list.splits if_splits)

lemma dependencies_body_eq:
  "dependencies_body (log, ds) t =
     (log @ (if 2 < length (split_dot t) then [LogWarning t] else []),
      ds @ (case split_dot t of
              [n] \<Rightarrow> [\<lparr>name = n, schema = ''public''\<rparr>]
            | [sc, n] \<Rightarrow> [\<lparr>name = n, schema = sc\<rparr>]
            | _ \<Rightarrow> []))"
proof (cases "split_dot t")
  case Nil
  then show ?thesis by simp
next
  case (Cons a as)
  then show ?thesis
    by (cases as; cases "tl as") (simp_all add: dependencies_body_def)
qed

lemma foldl_dependencies_body:
  "foldl dependencies_body (log, ds) tables =
     (log @ map LogWarning (filter (\<lambda>t. 2 < length (split_dot t)) tables),
      ds @ concat (map (\<lambda>t. case split_dot t of
                            [n] \<Rightarrow> [\<lparr>name = n, schema = ''public''\<rparr>]
                          | [sc, n] \<Rightarrow> [\<lparr>name = n, schema = sc\<rparr>]
                          | _ \<Rightarrow> []) tables))"
  by (induction tables arbitrary: log ds) (simp_all add: dependencies_body_eq)

lemma dependencies_with_all:
  assumes "all_view_ddl self = Inr v"
  shows "\<exists>log ds. dependencies parser self = (log, Inr ds)"
proof (cases "dependencies_try parser self")
  case (Pair log r)
  then show ?thesis
    by (cases r) (simp_all add: dependencies_def assms)
qed

text \<open>
  C5. When the slot \<open>all\<close> carries a non-empty view definition \<open>s\<close>, the parser is given
  \<open>s\<close> without its parenthesis characters. Every identifier that the parser returns is
  split at the dots: one piece gives the dependency with schema \<open>public\<close> and that name,
  two pieces give the dependency with the first as schema and the second as name, more
  pieces give no dependency and one warning that carries the identifier; the extraction
  goes on with the next identifier.
\<close>

theorem dependencies_split_on_dot:
  assumes "all_view_ddl self = Inr (PStr s)" and "s \<noteq> []"
    and "parser (filter (\<lambda>c. c \<noteq> CHR ''('' \<and> c \<noteq> CHR '')'') s) = Inr tables"
  shows "dependencies parser self =
     (map LogWarning (filter (\<lambda>t. 2 < length (split_dot t)) tables),
      Inr (concat (map (\<lambda>t. case split_dot t of
                              [n] \<Rightarrow> [\<lparr>name = n, schema = ''public''\<rparr>]
                            | [sc, n] \<Rightarrow> [\<lparr>name = n, schema = sc\<rparr>]
                            | _ \<Rightarrow> []) tables)))"
proof -
  have "replace_empty CHR '')'' (replace_empty CHR ''('' s)
      = filter (\<lambda>c. c \<noteq> CHR ''('' \<and> c \<noteq> CHR '')'') s"
    by (auto simp: replace_empty_def intro: filter_cong)
  with assms have "dependencies_try parser self =
     (map LogWarning (filter (\<lambda>t. 2 < length (split_dot t)) tables),
      Inr (concat (map (\<lambda>t. case split_dot t of
                              [n] \<Rightarrow> [\<lparr>name = n, schema = ''public''\<rparr>]
                            | [sc, n] \<Rightarrow> [\<lparr>name = n, schema = sc\<rparr>]
                            | _ \<Rightarrow> []) tables)))"
    by (simp add: dependencies_try_def foldl_dependencies_body)
  then show ?thesis by (simp add: dependencies_def)
qed

theorem dependencies_split_on_dot_witness:
  "dependencies example_parser example_view =
     ([LogWarning ''a.b.c''],
      Inr [\<lparr>name = ''foo'', schema = ''s1''\<rparr>, \<lparr>name = ''orders'', schema = ''public''\<rparr>])"
proof -
  have 1: "all_view_ddl example_view
      = Inr (PStr ''SELECT count(*) FROM s1.foo, orders, a.b.c'')"
    by (simp add: all_view_ddl_def example_view_def getattr_def)
  have 2: "''SELECT count(*) FROM s1.foo, orders, a.b.c'' \<noteq> []" by simp
  have 3: "example_parser (filter (\<lambda>c. c \<noteq> CHR ''('' \<and> c \<noteq> CHR '')'')
      ''SELECT count(*) FROM s1.foo, orders, a.b.c'') = Inr [''s1.foo'', ''orders'', ''a.b.c'']"
    by (simp add: example_parser_def)
  show ?thesis
    using dependencies_split_on_dot [where parser = example_parser and self = example_view
        and s = "''SELECT count(*) FROM s1.foo, orders, a.b.c''"
        and tables = "[''s1.foo'', ''orders'', ''a.b.c'']", OF 1 2 3]
    by simp
qed

text \<open>
  C4. A table that the aligner returns for a base row with no matching row in
  \<open>tables_all\<close> has the slot \<open>all = None\<close>. On it the property \<open>dependencies\<close> raises
  \<open>AttributeError\<close>: the handler of the \<open>try\<close> block reads \<open>self.all.view_ddl\<close> again to
  build its log message, and nothing is logged.
\<close>

theorem dependencies_raises_when_all_is_None:
  "MetadataTables example_models example_tables_base example_tables_all
     example_tables_redshift [] example_tables_info
     = Inr [example_table_orders, example_table_totals] \<and>
   MetadataTable.all example_table_orders = None \<and>
   dependencies parser example_table_orders = ([], Inl AttributeError)"
proof -
  have "MetadataTables example_models example_tables_base example_tables_all
     example_tables_redshift [] example_tables_info
     = Inr [example_table_orders, example_table_totals]"
    by (simp add: MetadataTables_def example_tables_runs)
  moreover have "MetadataTable.all example_table_orders = None"
    by (simp add: example_table_orders_def)
  moreover have "dependencies parser example_table_orders = ([], Inl AttributeError)"
    by (simp add: dependencies_def dependencies_try_def all_view_ddl_def example_table_orders_def)
  ultimately show ?thesis by simp
qed

section \<open>Exceptions that escape\<close>

lemma attach_malformed_row:
  assumes "index < length rows" and "length (rows ! index) \<noteq> length cls"
  shows "attach cls attrs rows index key = Inl TypeError"
  using assms by (simp add: attach_def construct_def)

lemma MetadataTables_malformed_redshift_row:
  assumes "decodes (MetadataTableBase M) [''table_catalog'', ''table_schema'', ''table_name''] [x]"
    and "length r \<noteq> length (MetadataTableRedshift M)"
  shows "MetadataTables M [x] [] [r] [] [] = Inl TypeError"
proof -
  note c = decodes_construct [OF assms(1), of x, simplified]
  from decodes_getattr [OF assms(1), of x] obtain db sn tn
    where g: "getattr (zip (MetadataTableBase M) x) ''table_catalog'' = Inr db"
      "getattr (zip (MetadataTableBase M) x) ''table_schema'' = Inr sn"
      "getattr (zip (MetadataTableBase M) x) ''table_name'' = Inr tn"
    by fastforce
  have a: "attach (MetadataTableAll M) [''database_name'', ''schema_name'', ''table_name'']
      [] 0 [db, sn, tn] = Inr (None, 0)"
    by (simp add: attach_def)
  have r: "attach (MetadataTableRedshift M) [''database_name'', ''schema_name'', ''table_name'']
      [r] 0 [db, sn, tn] = Inl TypeError"
    using assms(2) by (simp add: attach_malformed_row)
  show ?thesis
    by (simp add: MetadataTables_def MetadataTables_loop_def MetadataTables_body_def c g a r)
qed

text \<open>
  C6, as the code has it. An auxiliary row is decoded with \<open>Cls(*row)\<close> like a base row,
  outside any \<open>try\<close>: here the base list decodes and one row of \<open>tables_redshift\<close> has
  five values for a class of four fields, and \<open>TypeError\<close> escapes the aligner.
\<close>

theorem malformed_auxiliary_row_raises:
  "decodes (MetadataTableBase example_models) [''table_catalog'', ''table_schema'', ''table_name'']
     example_tables_base \<and>
   MetadataTables example_models example_tables_base []
     [[PStr ''dev'', PStr ''public'', PStr ''orders'', PStr ''EVEN'', PStr ''KEY'']] [] []
     = Inl TypeError"
proof -
  have "MetadataTables example_models example_tables_base []
     [[PStr ''dev'', PStr ''public'', PStr ''orders'', PStr ''EVEN'', PStr ''KEY'']] [] []
     = Inl TypeError"
    by code_simp
  with example_tables_decode(1) show ?thesis by simp
qed

text \<open>
  C6, amended. No exception escapes an aligner when the rows of all its lists, base and
  auxiliary, decode into their classes, whatever keys the auxiliary rows carry, in whatever
  order and number. No exception escapes \<open>dependencies\<close> on a table whose slot \<open>all\<close> is
  present and has the attribute \<open>view_ddl\<close>, whatever the view text is and whatever the
  parser does.
\<close>

theorem no_exception_escapes_when_rows_decode:
  "(decodes (MetadataSchemaBase M) [''database_name'', ''schema_name''] sb \<and>
    decodes (MetadataSchemaRedshift M) [''database_name'', ''schema_name''] sr \<and>
    decodes (MetadataSchemaExternal M) [''databasename'', ''schemaname''] se
      \<longrightarrow> (\<exists>ms. MetadataSchemas M sb sr se = Inr ms)) \<and>
   (decodes (MetadataTableBase M) [''table_catalog'', ''table_schema'', ''table_name''] tb \<and>
    decodes (MetadataTableAll M) [''database_name'', ''schema_name'', ''table_name''] ta \<and>
    decodes (MetadataTableRedshift M) [''database_name'', ''schema_name'', ''table_name''] tr \<and>
    decodes (MetadataTableExternal M) [''databasename'', ''schemaname'', ''tablename''] te \<and>
    decodes (MetadataTableInfo M) [''database'', ''schema'', ''table''] ti
      \<longrightarrow> (\<exists>ms. MetadataTables M tb ta tr te ti = Inr ms)) \<and>
   (decodes (MetadataColumnBase M)
      [''database_name'', ''schema_name'', ''table_name'', ''column_name'', ''ordinal_position'']
      cb \<and>
    decodes (MetadataColumnRedshift M)
      [''database_name'', ''schema_name'', ''table_name'', ''ordinal_position''] cr \<and>
    decodes (MetadataColumnExternal M)
      [''databasename'', ''schemaname'', ''tablename'', ''columnnum''] ce
      \<longrightarrow> (\<exists>ms. MetadataColumns M cb cr ce = Inr ms)) \<and>
   (all_view_ddl self = Inr v \<longrightarrow> (\<exists>log ds. dependencies parser self = (log, Inr ds)))"
proof -
  have s: "\<exists>ms. MetadataSchemas M sb sr se = Inr ms"
    if "decodes (MetadataSchemaBase M) [''database_name'', ''schema_name''] sb \<and>
      decodes (MetadataSchemaRedshift M) [''database_name'', ''schema_name''] sr \<and>
      decodes (MetadataSchemaExternal M) [''databasename'', ''schemaname''] se"
    using that by (simp add: MetadataSchemas_total)
  have t: "\<exists>ms. MetadataTables M tb ta tr te ti = Inr ms"
    if "decodes (MetadataTableBase M) [''table_catalog'', ''table_schema'', ''table_name''] tb \<and>
      decodes (MetadataTableAll M) [''database_name'', ''schema_name'', ''table_name''] ta \<and>
      decodes (MetadataTableRedshift M) [''database_name'', ''schema_name'', ''table_name''] tr \<and>
      decodes (MetadataTableExternal M) [''databasename'', ''schemaname'', ''tablename''] te \<and>
      decodes (MetadataTableInfo M) [''database'', ''schema'', ''table''] ti"
    using that by (simp add: MetadataTables_total)
  have c: "\<exists>ms. MetadataColumns M cb cr ce = Inr ms"
    if "decodes (MetadataColumnBase M)
        [''database_name'', ''schema_name'', ''table_name'', ''column_name'', ''ordinal_position'']
        cb \<and>
      decodes (MetadataColumnRedshift M)
        [''database_name'', ''schema_name'', ''table_name'', ''ordinal_position''] cr \<and>
      decodes (MetadataColumnExternal M)
        [''databasename'', ''schemaname'', ''tablename'', ''columnnum''] ce"
    using that by (simp add: MetadataColumns_total)
  have d: "\<exists>log ds. dependencies parser self = (log, Inr ds)" if "all_view_ddl self = Inr v"
    using that by (rule dependencies_with_all)
  show ?thesis
    apply (rule conjI, rule impI, erule s)
    apply (rule conjI, rule impI, erule t)
    apply (rule conjI, rule impI, erule c)
    apply (rule impI, erule d)
    done
qed

theorem no_exception_escapes_when_rows_decode_witness:
  "(\<exists>ms. MetadataSchemas example_models example_schemas_base example_schemas_redshift [] = Inr ms) \<and>
   (\<exists>ms. MetadataTables example_models example_tables_base example_tables_all
            example_tables_redshift [] example_tables_info = Inr ms) \<and>
   (\<exists>ms. MetadataColumns example_models example_columns_base example_columns_redshift [] = Inr ms) \<and>
   (\<exists>log ds. dependencies (\<lambda>text. Inl ParserFailure) example_view = (log, Inr ds))"
proof -
  note t = no_exception_escapes_when_rows_decode [where M = example_models
      and sb = example_schemas_base and sr = example_schemas_redshift and se = "[]"
      and tb = example_tables_base and ta = example_tables_all and tr = example_tables_redshift
      and te = "[]" and ti = example_tables_info
      and cb = example_columns_base and cr = example_columns_redshift and ce = "[]"
      and self = example_view and parser = "\<lambda>text. Inl ParserFailure"
      and v = "PStr ''SELECT count(*) FROM s1.foo, orders, a.b.c''"]
  have v: "all_view_ddl example_view = Inr (PStr ''SELECT count(*) FROM s1.foo, orders, a.b.c'')"
    by (simp add: all_view_ddl_def example_view_def getattr_def)
  show ?thesis
    apply (rule conjI, rule t [THEN conjunct1, THEN mp])
     apply (simp only: example_schemas_decode simp_thms)
    apply (rule conjI, rule t [THEN conjunct2, THEN conjunct1, THEN mp])
     apply (simp only: example_tables_decode simp_thms)
    apply (rule conjI, rule t [THEN conjunct2, THEN conjunct2, THEN conjunct1, THEN mp])
     apply (simp only: example_columns_decode simp_thms)
    apply (rule t [THEN conjunct2, THEN conjunct2, THEN conjunct2, THEN mp])
    apply (rule v)
    done
qed

section \<open>Claims about the metadata projection\<close>


lemma for_each_dict_pop_missing:
  assumes "k \<in> set keys" and "k \<notin> fst ` set d"
  shows "for_each dict_pop keys d = Inl KeyError"
  using assms
proof (induction keys arbitrary: d)
  case Nil
  then show ?case by simp
next
  case (Cons x xs)
  show ?case
  proof (cases "x \<in> fst ` set d")
    case False
    then show ?thesis by (simp add: dict_pop_def)
  next
    case True
    let ?d = "filter (\<lambda>kv. fst kv \<noteq> x) d"
    from True have pop: "dict_pop d x = Inr ?d" by (simp add: dict_pop_def)
    from True Cons.prems have "k \<in> set xs" by auto
    moreover from Cons.prems have "k \<notin> fst ` set ?d" by auto
    ultimately have "for_each dict_pop xs ?d = Inl KeyError" by (rule Cons.IH)
    with pop show ?thesis by simp
  qed
qed




text \<open>
  C10. When the exclusion set holds a key that is not a field of the slot, the projector
  raises \<open>KeyError\<close> and the list is left as it was, whatever the constructor of
  \<open>MetadataExtension\<close> would do.
\<close>

theorem projector_raises_KeyError_on_unknown_key:
  assumes "k \<in> set keys" and "k \<notin> fst ` set obj"
  shows "append_metadata_extension constructor metadata_list url (Some obj) (Some keys)
           = (metadata_list, Some KeyError)"
  using for_each_dict_pop_missing [OF assms]
  by (simp add: append_metadata_extension_def)

theorem projector_raises_KeyError_on_unknown_key_witness:
  "append_metadata_extension example_constructor
     [\<lparr>schema_url = ''https://example.org/base.json'', metadata = []\<rparr>]
     ''https://example.org/schema.json''
     (Some [(''a'', PInt 1), (''b'', PNone), (''c'', PStr ''x'')]) (Some [''c'', ''z''])
     = ([\<lparr>schema_url = ''https://example.org/base.json'', metadata = []\<rparr>], Some KeyError)"
proof -
  have 1: "''z'' \<in> set [''c'', ''z'']" by simp
  have 2: "''z'' \<notin> fst ` set [(''a'', PInt 1), (''b'', PNone), (''c'', PStr ''x'')]" by simp
  show ?thesis
    by (rule projector_raises_KeyError_on_unknown_key [OF 1 2])
qed

section \<open>Claim about the slots an aligner fills\<close>

lemma populated_where_listed_nth:
  assumes "populated_where_listed (map f ms) cls attrs rows base_cls base_attrs base_rows"
    and "i < length base_rows"
  shows "f (ms ! i) \<noteq> None \<longleftrightarrow>
         identity_key base_cls base_attrs (base_rows ! i) \<in> set (map (identity_key cls attrs) rows)"
proof -
  from assms(1) have len: "length ms = length base_rows"
    by (simp add: populated_where_listed_def)
  from assms have "map f ms ! i \<noteq> None \<longleftrightarrow>
      identity_key base_cls base_attrs (base_rows ! i) \<in> set (map (identity_key cls attrs) rows)"
    unfolding populated_where_listed_def by blast
  moreover have "map f ms ! i = f (ms ! i)"
    using len assms(2) by simp
  ultimately show ?thesis by simp
qed

text \<open>
  C1, as the code has it. The base list names the table \<open>orders\<close> twice and the list
  \<open>tables_redshift\<close> has one row for it: the list is a subset of the base list by
  identity key, in the same order, and all rows decode. The aligner returns two merged
  objects; the second one has the identity key of the auxiliary row and an empty slot
  \<open>redshift\<close>, because the cursor has moved past the row.
\<close>

theorem repeated_base_key_leaves_slot_empty:
  "decodes (MetadataTableBase example_models) [''table_catalog'', ''table_schema'', ''table_name'']
     example_tables_duplicated \<and>
   decodes (MetadataTableRedshift example_models)
     [''database_name'', ''schema_name'', ''table_name''] example_tables_redshift \<and>
   subseq (map (identity_key (MetadataTableRedshift example_models)
                  [''database_name'', ''schema_name'', ''table_name'']) example_tables_redshift)
     (map (identity_key (MetadataTableBase example_models)
             [''table_catalog'', ''table_schema'', ''table_name'']) example_tables_duplicated) \<and>
   MetadataTables example_models example_tables_duplicated [] example_tables_redshift [] []
     = Inr [example_table_orders_first, example_table_orders_second] \<and>
   identity_key (MetadataTableBase example_models)
     [''table_catalog'', ''table_schema'', ''table_name''] (example_tables_duplicated ! 1)
     \<in> set (map (identity_key (MetadataTableRedshift example_models)
                    [''database_name'', ''schema_name'', ''table_name''])
              example_tables_redshift) \<and>
   MetadataTable.redshift example_table_orders_second = None"
proof -
  have "MetadataTables example_models example_tables_duplicated [] example_tables_redshift [] []
     = Inr [example_table_orders_first, example_table_orders_second]"
    by code_simp
  then show ?thesis
    by (simp add: decodes_def identity_key_def example_models_def example_tables_duplicated_def
        example_tables_redshift_def example_table_orders_second_def)
qed

text \<open>
  C1, amended. An aligner returns when the rows of all its lists decode. Whenever it
  returns, and the identity keys of the base rows are pairwise different, the following
  holds for each auxiliary list on its own, whatever the other auxiliary lists hold: if the
  identity keys of the list are a subsequence of the identity keys of the base list, that
  is a subset of the base keys in the order of the base list, then the slot of that list is
  populated in exactly the merged objects whose base row has an identity key that occurs in
  the list, and is empty in all others.
\<close>

theorem auxiliary_slot_populated_iff_key_listed:
  "(decodes (MetadataSchemaBase M) [''database_name'', ''schema_name''] sb \<and>
    decodes (MetadataSchemaRedshift M) [''database_name'', ''schema_name''] sr \<and>
    decodes (MetadataSchemaExternal M) [''databasename'', ''schemaname''] se
      \<longrightarrow> (\<exists>ms. MetadataSchemas M sb sr se = Inr ms)) \<and>
   (\<forall>ms. MetadataSchemas M sb sr se = Inr ms \<and>
         distinct (map (identity_key (MetadataSchemaBase M) [''database_name'', ''schema_name'']) sb) \<longrightarrow>
        (subseq (map (identity_key (MetadataSchemaRedshift M) [''database_name'', ''schema_name'']) sr)
              (map (identity_key (MetadataSchemaBase M) [''database_name'', ''schema_name'']) sb)
           \<longrightarrow> populated_where_listed (map MetadataSchema.redshift ms) (MetadataSchemaRedshift M) [''database_name'', ''schema_name''] sr
              (MetadataSchemaBase M) [''database_name'', ''schema_name''] sb) \<and>
        (subseq (map (identity_key (MetadataSchemaExternal M) [''databasename'', ''schemaname'']) se)
              (map (identity_key (MetadataSchemaBase M) [''database_name'', ''schema_name'']) sb)
           \<longrightarrow> populated_where_listed (map MetadataSchema.external ms) (MetadataSchemaExternal M) [''databasename'', ''schemaname''] se
              (MetadataSchemaBase M) [''database_name'', ''schema_name''] sb)) \<and>
   (decodes (MetadataTableBase M) [''table_catalog'', ''table_schema'', ''table_name''] tb \<and>
    decodes (MetadataTableAll M) [''database_name'', ''schema_name'', ''table_name''] ta \<and>
    decodes (MetadataTableRedshift M) [''database_name'', ''schema_name'', ''table_name''] tr \<and>
    decodes (MetadataTableExternal M) [''databasename'', ''schemaname'', ''tablename''] te \<and>
    decodes (MetadataTableInfo M) [''database'', ''schema'', ''table''] ti
      \<longrightarrow> (\<exists>ms. MetadataTables M tb ta tr te ti = Inr ms)) \<and>
   (\<forall>ms. MetadataTables M tb ta tr te ti = Inr ms \<and>
         distinct (map (identity_key (MetadataTableBase M) [''table_catalog'', ''table_schema'', ''table_name'']) tb) \<longrightarrow>
        (subseq (map (identity_key (MetadataTableAll M) [''database_name'', ''schema_name'', ''table_name'']) ta)
              (map (identity_key (MetadataTableBase M) [''table_catalog'', ''table_schema'', ''table_name'']) tb)
           \<longrightarrow> populated_where_listed (map MetadataTable.all ms) (MetadataTableAll M) [''database_name'', ''schema_name'', ''table_name''] ta
              (MetadataTableBase M) [''table_catalog'', ''table_schema'', ''table_name''] tb) \<and>
        (subseq (map (identity_key (MetadataTableRedshift M) [''database_name'', ''schema_name'', ''table_name'']) tr)
              (map (identity_key (MetadataTableBase M) [''table_catalog'', ''table_schema'', ''table_name'']) tb)
           \<longrightarrow> populated_where_listed (map MetadataTable.redshift ms) (MetadataTableRedshift M) [''database_name'', ''schema_name'', ''table_name''] tr
              (MetadataTableBase M) [''table_catalog'', ''table_schema'', ''table_name''] tb) \<and>
        (subseq (map (identity_key (MetadataTableExternal M) [''databasename'', ''schemaname'', ''tablename'']) te)
              (map (identity_key (MetadataTableBase M) [''table_catalog'', ''table_schema'', ''table_name'']) tb)
           \<longrightarrow> populated_where_listed (map MetadataTable.external ms) (MetadataTableExternal M) [''databasename'', ''schemaname'', ''tablename''] te
              (MetadataTableBase M) [''table_catalog'', ''table_schema'', ''table_name''] tb) \<and>
        (subseq (map (identity_key (MetadataTableInfo M) [''database'', ''schema'', ''table'']) ti)
              (map (identity_key (MetadataTableBase M) [''table_catalog'', ''table_schema'', ''table_name'']) tb)
           \<longrightarrow> populated_where_listed (map MetadataTable.info ms) (MetadataTableInfo M) [''database'', ''schema'', ''table''] ti
              (MetadataTableBase M) [''table_catalog'', ''table_schema'', ''table_name''] tb)) \<and>
   (decodes (MetadataColumnBase M) [''database_name'', ''schema_name'', ''table_name'', ''column_name'', ''ordinal_position''] cb \<and>
    decodes (MetadataColumnRedshift M) [''database_name'', ''schema_name'', ''table_name'', ''ordinal_position''] cr \<and>
    decodes (MetadataColumnExternal M) [''databasename'', ''schemaname'', ''tablename'', ''columnnum''] ce
      \<longrightarrow> (\<exists>ms. MetadataColumns M cb cr ce = Inr ms)) \<and>
   (\<forall>ms. MetadataColumns M cb cr ce = Inr ms \<and>
         distinct (map (identity_key (MetadataColumnBase M) [''database_name'', ''schema_name'', ''table_name'', ''ordinal_position'']) cb) \<longrightarrow>
        (subseq (map (identity_key (MetadataColumnRedshift M) [''database_name'', ''schema_name'', ''table_name'', ''ordinal_position'']) cr)
              (map (identity_key (MetadataColumnBase M) [''database_name'', ''schema_name'', ''table_name'', ''ordinal_position'']) cb)
           \<longrightarrow> populated_where_listed (map MetadataColumn.redshift ms) (MetadataColumnRedshift M) [''database_name'', ''schema_name'', ''table_name'', ''ordinal_position''] cr
              (MetadataColumnBase M) [''database_name'', ''schema_name'', ''table_name'', ''ordinal_position''] cb) \<and>
        (subseq (map (identity_key (MetadataColumnExternal M) [''databasename'', ''schemaname'', ''tablename'', ''columnnum'']) ce)
              (map (identity_key (MetadataColumnBase M) [''database_name'', ''schema_name'', ''table_name'', ''ordinal_position'']) cb)
           \<longrightarrow> populated_where_listed (map MetadataColumn.external ms) (MetadataColumnExternal M) [''databasename'', ''schemaname'', ''tablename'', ''columnnum''] ce
              (MetadataColumnBase M) [''database_name'', ''schema_name'', ''table_name'', ''ordinal_position''] cb))"
proof -
  have s1: "\<exists>ms. MetadataSchemas M sb sr se = Inr ms"
    if "decodes (MetadataSchemaBase M) [''database_name'', ''schema_name''] sb \<and>
    decodes (MetadataSchemaRedshift M) [''database_name'', ''schema_name''] sr \<and>
    decodes (MetadataSchemaExternal M) [''databasename'', ''schemaname''] se"
    using that by (simp add: MetadataSchemas_total)
  have s2: "(subseq (map (identity_key (MetadataSchemaRedshift M) [''database_name'', ''schema_name'']) sr)
              (map (identity_key (MetadataSchemaBase M) [''database_name'', ''schema_name'']) sb)
           \<longrightarrow> populated_where_listed (map MetadataSchema.redshift ms) (MetadataSchemaRedshift M) [''database_name'', ''schema_name''] sr
              (MetadataSchemaBase M) [''database_name'', ''schema_name''] sb) \<and>
        (subseq (map (identity_key (MetadataSchemaExternal M) [''databasename'', ''schemaname'']) se)
              (map (identity_key (MetadataSchemaBase M) [''database_name'', ''schema_name'']) sb)
           \<longrightarrow> populated_where_listed (map MetadataSchema.external ms) (MetadataSchemaExternal M) [''databasename'', ''schemaname''] se
              (MetadataSchemaBase M) [''database_name'', ''schema_name''] sb)"
    if h: "MetadataSchemas M sb sr se = Inr ms \<and>
         distinct (map (identity_key (MetadataSchemaBase M) [''database_name'', ''schema_name'']) sb)" for ms
  proof -
    from h have run: "MetadataSchemas M sb sr se = Inr ms"
      and dist: "distinct (map (identity_key (MetadataSchemaBase M) [''database_name'', ''schema_name'']) sb)" by simp_all
    note sl = MetadataSchemas_slots [OF run dist]
    have p1: "populated_where_listed (map MetadataSchema.redshift ms) (MetadataSchemaRedshift M) [''database_name'', ''schema_name''] sr
              (MetadataSchemaBase M) [''database_name'', ''schema_name''] sb"
      if "subseq (map (identity_key (MetadataSchemaRedshift M) [''database_name'', ''schema_name'']) sr)
              (map (identity_key (MetadataSchemaBase M) [''database_name'', ''schema_name'']) sb)"
      using sl(1) [OF that]
      by (simp add: populated_where_listed_def list_all2_conv_all_nth)
    have p2: "populated_where_listed (map MetadataSchema.external ms) (MetadataSchemaExternal M) [''databasename'', ''schemaname''] se
              (MetadataSchemaBase M) [''database_name'', ''schema_name''] sb"
      if "subseq (map (identity_key (MetadataSchemaExternal M) [''databasename'', ''schemaname'']) se)
              (map (identity_key (MetadataSchemaBase M) [''database_name'', ''schema_name'']) sb)"
      using sl(2) [OF that]
      by (simp add: populated_where_listed_def list_all2_conv_all_nth)
    show ?thesis
      by (intro conjI impI; (erule p1 | erule p2))
  qed
  have t1: "\<exists>ms. MetadataTables M tb ta tr te ti = Inr ms"
    if "decodes (MetadataTableBase M) [''table_catalog'', ''table_schema'', ''table_name''] tb \<and>
    decodes (MetadataTableAll M) [''database_name'', ''schema_name'', ''table_name''] ta \<and>
    decodes (MetadataTableRedshift M) [''database_name'', ''schema_name'', ''table_name''] tr \<and>
    decodes (MetadataTableExternal M) [''databasename'', ''schemaname'', ''tablename''] te \<and>
    decodes (MetadataTableInfo M) [''database'', ''schema'', ''table''] ti"
    using that by (simp add: MetadataTables_total)
  have t2: "(subseq (map (identity_key (MetadataTableAll M) [''database_name'', ''schema_name'', ''table_name'']) ta)
              (map (identity_key (MetadataTableBase M) [''table_catalog'', ''table_schema'', ''table_name'']) tb)
           \<longrightarrow> populated_where_listed (map MetadataTable.all ms) (MetadataTableAll M) [''database_name'', ''schema_name'', ''table_name''] ta
              (MetadataTableBase M) [''table_catalog'', ''table_schema'', ''table_name''] tb) \<and>
        (subseq (map (identity_key (MetadataTableRedshift M) [''database_name'', ''schema_name'', ''table_name'']) tr)
              (map (identity_key (MetadataTableBase M) [''table_catalog'', ''table_schema'', ''table_name'']) tb)
           \<longrightarrow> populated_where_listed (map MetadataTable.redshift ms) (MetadataTableRedshift M) [''database_name'', ''schema_name'', ''table_name''] tr
              (MetadataTableBase M) [''table_catalog'', ''table_schema'', ''table_name''] tb) \<and>
        (subseq (map (identity_key (MetadataTableExternal M) [''databasename'', ''schemaname'', ''tablename'']) te)
              (map (identity_key (MetadataTableBase M) [''table_catalog'', ''table_schema'', ''table_name'']) tb)
           \<longrightarrow> populated_where_listed (map MetadataTable.external ms) (MetadataTableExternal M) [''databasename'', ''schemaname'', ''tablename''] te
              (MetadataTableBase M) [''table_catalog'', ''table_schema'', ''table_name''] tb) \<and>
        (subseq (map (identity_key (MetadataTableInfo M) [''database'', ''schema'', ''table'']) ti)
              (map (identity_key (MetadataTableBase M) [''table_catalog'', ''table_schema'', ''table_name'']) tb)
           \<longrightarrow> populated_where_listed (map MetadataTable.info ms) (MetadataTableInfo M) [''database'', ''schema'', ''table''] ti
              (MetadataTableBase M) [''table_catalog'', ''table_schema'', ''table_name''] tb)"
    if h: "MetadataTables M tb ta tr te ti = Inr ms \<and>
         distinct (map (identity_key (MetadataTableBase M) [''table_catalog'', ''table_schema'', ''table_name'']) tb)" for ms
  proof -
    from h have run: "MetadataTables M tb ta tr te ti = Inr ms"
      and dist: "distinct (map (identity_key (MetadataTableBase M) [''table_catalog'', ''table_schema'', ''table_name'']) tb)" by simp_all
    note sl = MetadataTables_slots [OF run dist]
    have p1: "populated_where_listed (map MetadataTable.all ms) (MetadataTableAll M) [''database_name'', ''schema_name'', ''table_name''] ta
              (MetadataTableBase M) [''table_catalog'', ''table_schema'', ''table_name''] tb"
      if "subseq (map (identity_key (MetadataTableAll M) [''database_name'', ''schema_name'', ''table_name'']) ta)
              (map (identity_key (MetadataTableBase M) [''table_catalog'', ''table_schema'', ''table_name'']) tb)"
      using sl(1) [OF that]
      by (simp add: populated_where_listed_def list_all2_conv_all_nth)
    have p2: "populated_where_listed (map MetadataTable.redshift ms) (MetadataTableRedshift M) [''database_name'', ''schema_name'', ''table_name''] tr
              (MetadataTableBase M) [''table_catalog'', ''table_schema'', ''table_name''] tb"
      if "subseq (map (identity_key (MetadataTableRedshift M) [''database_name'', ''schema_name'', ''table_name'']) tr)
              (map (identity_key (MetadataTableBase M) [''table_catalog'', ''table_schema'', ''table_name'']) tb)"
      using sl(2) [OF that]
      by (simp add: populated_where_listed_def list_all2_conv_all_nth)
    have p3: "populated_where_listed (map MetadataTable.external ms) (MetadataTableExternal M) [''databasename'', ''schemaname'', ''tablename''] te
              (MetadataTableBase M) [''table_catalog'', ''table_schema'', ''table_name''] tb"
      if "subseq (map (identity_key (MetadataTableExternal M) [''databasename'', ''schemaname'', ''tablename'']) te)
              (map (identity_key (MetadataTableBase M) [''table_catalog'', ''table_schema'', ''table_name'']) tb)"
      using sl(3) [OF that]
      by (simp add: populated_where_listed_def list_all2_conv_all_nth)
    have p4: "populated_where_listed (map MetadataTable.info ms) (MetadataTableInfo M) [''database'', ''schema'', ''table''] ti
              (MetadataTableBase M) [''table_catalog'', ''table_schema'', ''table_name''] tb"
      if "subseq (map (identity_key (MetadataTableInfo M) [''database'', ''schema'', ''table'']) ti)
              (map (identity_key (MetadataTableBase M) [''table_catalog'', ''table_schema'', ''table_name'']) tb)"
      using sl(4) [OF that]
      by (simp add: populated_where_listed_def list_all2_conv_all_nth)
    show ?thesis
      by (intro conjI impI; (erule p1 | erule p2 | erule p3 | erule p4))
  qed
  have c1: "\<exists>ms. MetadataColumns M cb cr ce = Inr ms"
    if "decodes (MetadataColumnBase M) [''database_name'', ''schema_name'', ''table_name'', ''column_name'', ''ordinal_position''] cb \<and>
    decodes (MetadataColumnRedshift M) [''database_name'', ''schema_name'', ''table_name'', ''ordinal_position''] cr \<and>
    decodes (MetadataColumnExternal M) [''databasename'', ''schemaname'', ''tablename'', ''columnnum''] ce"
    using that by (simp add: MetadataColumns_total)
  have c2: "(subseq (map (identity_key (MetadataColumnRedshift M) [''database_name'', ''schema_name'', ''table_name'', ''ordinal_position'']) cr)
              (map (identity_key (MetadataColumnBase M) [''database_name'', ''schema_name'', ''table_name'', ''ordinal_position'']) cb)
           \<longrightarrow> populated_where_listed (map MetadataColumn.redshift ms) (MetadataColumnRedshift M) [''database_name'', ''schema_name'', ''table_name'', ''ordinal_position''] cr
              (MetadataColumnBase M) [''database_name'', ''schema_name'', ''table_name'', ''ordinal_position''] cb) \<and>
        (subseq (map (identity_key (MetadataColumnExternal M) [''databasename'', ''schemaname'', ''tablename'', ''columnnum'']) ce)
              (map (identity_key (MetadataColumnBase M) [''database_name'', ''schema_name'', ''table_name'', ''ordinal_position'']) cb)
           \<longrightarrow> populated_where_listed (map MetadataColumn.external ms) (MetadataColumnExternal M) [''databasename'', ''schemaname'', ''tablename'', ''columnnum''] ce
              (MetadataColumnBase M) [''database_name'', ''schema_name'', ''table_name'', ''ordinal_position''] cb)"
    if h: "MetadataColumns M cb cr ce = Inr ms \<and>
         distinct (map (identity_key (MetadataColumnBase M) [''database_name'', ''schema_name'', ''table_name'', ''ordinal_position'']) cb)" for ms
  proof -
    from h have run: "MetadataColumns M cb cr ce = Inr ms"
      and dist: "distinct (map (identity_key (MetadataColumnBase M) [''database_name'', ''schema_name'', ''table_name'', ''ordinal_position'']) cb)" by simp_all
    note sl = MetadataColumns_slots [OF run dist]
    have p1: "populated_where_listed (map MetadataColumn.redshift ms) (MetadataColumnRedshift M) [''database_name'', ''schema_name'', ''table_name'', ''ordinal_position''] cr
              (MetadataColumnBase M) [''database_name'', ''schema_name'', ''table_name'', ''ordinal_position''] cb"
      if "subseq (map (identity_key (MetadataColumnRedshift M) [''database_name'', ''schema_name'', ''table_name'', ''ordinal_position'']) cr)
              (map (identity_key (MetadataColumnBase M) [''database_name'', ''schema_name'', ''table_name'', ''ordinal_position'']) cb)"
      using sl(1) [OF that]
      by (simp add: populated_where_listed_def list_all2_conv_all_nth)
    have p2: "populated_where_listed (map MetadataColumn.external ms) (MetadataColumnExternal M) [''databasename'', ''schemaname'', ''tablename'', ''columnnum''] ce
              (MetadataColumnBase M) [''database_name'', ''schema_name'', ''table_name'', ''ordinal_position''] cb"
      if "subseq (map (identity_key (MetadataColumnExternal M) [''databasename'', ''schemaname'', ''tablename'', ''columnnum'']) ce)
              (map (identity_key (MetadataColumnBase M) [''database_name'', ''schema_name'', ''table_name'', ''ordinal_position'']) cb)"
      using sl(2) [OF that]
      by (simp add: populated_where_listed_def list_all2_conv_all_nth)
    show ?thesis
      by (intro conjI impI; (erule p1 | erule p2))
  qed
  show ?thesis
    apply (rule conjI, rule impI, erule s1)
    apply (rule conjI, rule allI, rule impI, erule s2)
    apply (rule conjI, rule impI, erule t1)
    apply (rule conjI, rule allI, rule impI, erule t2)
    apply (rule conjI, rule impI, erule c1)
    apply (rule allI, rule impI, erule c2)
    done
qed

theorem auxiliary_slot_populated_iff_key_listed_witness:
  "(\<exists>ms. MetadataSchemas example_models example_schemas_base example_schemas_redshift example_schemas_external = Inr ms \<and>
      MetadataSchema.redshift (ms ! 0) = None \<and>
      MetadataSchema.redshift (ms ! 1) \<noteq> None) \<and>
   (\<exists>ms. MetadataTables example_models example_tables_base example_tables_all example_tables_redshift [] example_tables_info = Inr ms \<and>
      MetadataTable.all (ms ! 0) = None \<and>
      MetadataTable.all (ms ! 1) \<noteq> None \<and>
      MetadataTable.redshift (ms ! 0) \<noteq> None \<and>
      MetadataTable.redshift (ms ! 1) = None \<and>
      MetadataTable.external (ms ! 0) = None \<and>
      MetadataTable.external (ms ! 1) = None \<and>
      MetadataTable.info (ms ! 0) \<noteq> None \<and>
      MetadataTable.info (ms ! 1) = None) \<and>
   (\<exists>ms. MetadataColumns example_models example_columns_base example_columns_redshift [] = Inr ms \<and>
      MetadataColumn.redshift (ms ! 0) = None \<and>
      MetadataColumn.redshift (ms ! 1) \<noteq> None \<and>
      MetadataColumn.external (ms ! 0) = None \<and>
      MetadataColumn.external (ms ! 1) = None)"
proof -
  note t = auxiliary_slot_populated_iff_key_listed [where M = example_models
      and sb = example_schemas_base
      and sr = example_schemas_redshift
      and se = example_schemas_external
      and tb = example_tables_base
      and ta = example_tables_all
      and tr = example_tables_redshift
      and te = "[]"
      and ti = example_tables_info
      and cb = example_columns_base
      and cr = example_columns_redshift
      and ce = "[]"]
  note defs = decodes_def identity_key_def example_models_def
    example_schemas_base_def example_schemas_redshift_def example_schemas_external_def
    example_tables_base_def example_tables_all_def example_tables_redshift_def
    example_tables_info_def example_columns_base_def example_columns_redshift_def
  have sw: "\<exists>ms. MetadataSchemas example_models example_schemas_base example_schemas_redshift example_schemas_external = Inr ms \<and>
      MetadataSchema.redshift (ms ! 0) = None \<and>
      MetadataSchema.redshift (ms ! 1) \<noteq> None"
  proof -
    from t [THEN conjunct1, THEN mp] obtain ms
      where run: "MetadataSchemas example_models example_schemas_base example_schemas_redshift example_schemas_external = Inr ms"
      by (auto simp: defs)
    have dist: "distinct (map (identity_key (MetadataSchemaBase example_models) [''database_name'', ''schema_name'']) example_schemas_base)"
      by (simp add: defs)
    note sl = t [THEN conjunct2, THEN conjunct1, rule_format, OF conjI [OF run dist]]
    have p1: "populated_where_listed (map MetadataSchema.redshift ms) (MetadataSchemaRedshift example_models) [''database_name'', ''schema_name''] example_schemas_redshift
        (MetadataSchemaBase example_models) [''database_name'', ''schema_name''] example_schemas_base"
      by (rule sl [THEN conjunct1, THEN mp]) (simp add: defs)
    have "MetadataSchema.redshift (ms ! 0) = None" "MetadataSchema.redshift (ms ! 1) \<noteq> None"
      using populated_where_listed_nth [OF p1, of 0]
        populated_where_listed_nth [OF p1, of 1]
      by (simp_all add: defs)
    with run show ?thesis by blast
  qed
  have tw: "\<exists>ms. MetadataTables example_models example_tables_base example_tables_all example_tables_redshift [] example_tables_info = Inr ms \<and>
      MetadataTable.all (ms ! 0) = None \<and>
      MetadataTable.all (ms ! 1) \<noteq> None \<and>
      MetadataTable.redshift (ms ! 0) \<noteq> None \<and>
      MetadataTable.redshift (ms ! 1) = None \<and>
      MetadataTable.external (ms ! 0) = None \<and>
      MetadataTable.external (ms ! 1) = None \<and>
      MetadataTable.info (ms ! 0) \<noteq> None \<and>
      MetadataTable.info (ms ! 1) = None"
  proof -
    from t [THEN conjunct2, THEN conjunct2, THEN conjunct1, THEN mp] obtain ms
      where run: "MetadataTables example_models example_tables_base example_tables_all example_tables_redshift [] example_tables_info = Inr ms"
      by (auto simp: defs)
    have dist: "distinct (map (identity_key (MetadataTableBase example_models) [''table_catalog'', ''table_schema'', ''table_name'']) example_tables_base)"
      by (simp add: defs)
    note sl = t [THEN conjunct2, THEN conjunct2, THEN conjunct2, THEN conjunct1, rule_format, OF conjI [OF run dist]]
    have p1: "populated_where_listed (map MetadataTable.all ms) (MetadataTableAll example_models) [''database_name'', ''schema_name'', ''table_name''] example_tables_all
        (MetadataTableBase example_models) [''table_catalog'', ''table_schema'', ''table_name''] example_tables_base"
      by (rule sl [THEN conjunct1, THEN mp]) (simp add: defs)
    have p2: "populated_where_listed (map MetadataTable.redshift ms) (MetadataTableRedshift example_models) [''database_name'', ''schema_name'', ''table_name''] example_tables_redshift
        (MetadataTableBase example_models) [''table_catalog'', ''table_schema'', ''table_name''] example_tables_base"
      by (rule sl [THEN conjunct2, THEN conjunct1, THEN mp]) (simp add: defs)
    have p3: "populated_where_listed (map MetadataTable.external ms) (MetadataTableExternal example_models) [''databasename'', ''schemaname'', ''tablename''] []
        (MetadataTableBase example_models) [''table_catalog'', ''table_schema'', ''table_name''] example_tables_base"
      by (rule sl [THEN conjunct2, THEN conjunct2, THEN conjunct1, THEN mp]) (simp add: defs)
    have p4: "populated_where_listed (map MetadataTable.info ms) (MetadataTableInfo example_models) [''database'', ''schema'', ''table''] example_tables_info
        (MetadataTableBase example_models) [''table_catalog'', ''table_schema'', ''table_name''] example_tables_base"
      by (rule sl [THEN conjunct2, THEN conjunct2, THEN conjunct2, THEN mp]) (simp add: defs)
    have "MetadataTable.all (ms ! 0) = None" "MetadataTable.all (ms ! 1) \<noteq> None" "MetadataTable.redshift (ms ! 0) \<noteq> None" "MetadataTable.redshift (ms ! 1) = None" "MetadataTable.external (ms ! 0) = None" "MetadataTable.external (ms ! 1) = None" "MetadataTable.info (ms ! 0) \<noteq> None" "MetadataTable.info (ms ! 1) = None"
      using populated_where_listed_nth [OF p1, of 0]
        populated_where_listed_nth [OF p1, of 1]
        populated_where_listed_nth [OF p2, of 0]
        populated_where_listed_nth [OF p2, of 1]
        populated_where_listed_nth [OF p3, of 0]
        populated_where_listed_nth [OF p3, of 1]
        populated_where_listed_nth [OF p4, of 0]
        populated_where_listed_nth [OF p4, of 1]
      by (simp_all add: defs)
    with run show ?thesis by blast
  qed
  have cw: "\<exists>ms. MetadataColumns example_models example_columns_base example_columns_redshift [] = Inr ms \<and>
      MetadataColumn.redshift (ms ! 0) = None \<and>
      MetadataColumn.redshift (ms ! 1) \<noteq> None \<and>
      MetadataColumn.external (ms ! 0) = None \<and>
      MetadataColumn.external (ms ! 1) = None"
  proof -
    from t [THEN conjunct2, THEN conjunct2, THEN conjunct2, THEN conjunct2, THEN conjunct1, THEN mp] obtain ms
      where run: "MetadataColumns example_models example_columns_base example_columns_redshift [] = Inr ms"
      by (auto simp: defs)
    have dist: "distinct (map (identity_key (MetadataColumnBase example_models) [''database_name'', ''schema_name'', ''table_name'', ''ordinal_position'']) example_columns_base)"
      by (simp add: defs)
    note sl = t [THEN conjunct2, THEN conjunct2, THEN conjunct2, THEN conjunct2, THEN conjunct2, rule_format, OF conjI [OF run dist]]
    have p1: "populated_where_listed (map MetadataColumn.redshift ms) (MetadataColumnRedshift example_models) [''database_name'', ''schema_name'', ''table_name'', ''ordinal_position''] example_columns_redshift
        (MetadataColumnBase example_models) [''database_name'', ''schema_name'', ''table_name'', ''ordinal_position''] example_columns_base"
      by (rule sl [THEN conjunct1, THEN mp]) (simp add: defs)
    have p2: "populated_where_listed (map MetadataColumn.external ms) (MetadataColumnExternal example_models) [''databasename'', ''schemaname'', ''tablename'', ''columnnum''] []
        (MetadataColumnBase example_models) [''database_name'', ''schema_name'', ''table_name'', ''ordinal_position''] example_columns_base"
      by (rule sl [THEN conjunct2, THEN mp]) (simp add: defs)
    have "MetadataColumn.redshift (ms ! 0) = None" "MetadataColumn.redshift (ms ! 1) \<noteq> None" "MetadataColumn.external (ms ! 0) = None" "MetadataColumn.external (ms ! 1) = None"
      using populated_where_listed_nth [OF p1, of 0]
        populated_where_listed_nth [OF p1, of 1]
        populated_where_listed_nth [OF p2, of 0]
        populated_where_listed_nth [OF p2, of 1]
      by (simp_all add: defs)
    with run show ?thesis by blast
  qed
  show ?thesis by (rule conjI [OF sw conjI [OF tw cw]])
qed

section \<open>Running an aligner twice\<close>

lemma attach_in_store_eq:
  "attach_in_store cls attrs a i key h = (attach cls attrs (h a) i key, h)"
  by (simp add: attach_in_store_def attach_def sbind_def spure_def list_len_def list_getitem_def)

lemma sbind_pure: "sbind (\<lambda>h. (x, h)) f h = (case x of Inl e \<Rightarrow> (Inl e, h) | Inr a \<Rightarrow> f a h)"
  by (simp add: sbind_def split: sum.splits)

lemma for_in_eq:
  assumes body: "\<And>s x. body s x h = (pbody s x, h)"
  shows "for_in body a i s h = Some (for_each pbody (drop i (h a)) s, h)"
proof (induction "length (h a) - i" arbitrary: i s)
  case 0
  then show ?case by (subst for_in.simps) simp
next
  case (Suc n)
  then have lt: "i < length (h a)" and n: "n = length (h a) - (i + 1)" by simp_all
  from lt have d: "drop i (h a) = h a ! i # drop (i + 1) (h a)"
    by (simp add: Cons_nth_drop_Suc)
  show ?case
  proof (cases "pbody s (h a ! i)")
    case (Inl e)
    with lt d show ?thesis by (subst for_in.simps) (simp add: body)
  next
    case (Inr s')
    with lt d Suc.hyps(1) [OF n, of s'] show ?thesis
      by (subst for_in.simps) (simp add: body)
  qed
qed

lemma MetadataSchemas_body_in_store_eq:
  "MetadataSchemas_body_in_store M ar ae st x h = (MetadataSchemas_body M (h ar) (h ae) st x, h)"
  by (simp add: MetadataSchemas_body_in_store_def MetadataSchemas_body_def sbind_def spure_def
      attach_in_store_eq ebind_def split: sum.splits prod.splits)

lemma MetadataSchemas_in_store_eq:
  "MetadataSchemas_in_store M b r e h = Some (MetadataSchemas M (h b) (h r) (h e), h)"
  by (simp add: MetadataSchemas_in_store_def MetadataSchemas_def MetadataSchemas_loop_def
      for_in_eq [where pbody = "MetadataSchemas_body M (h r) (h e)"]
      MetadataSchemas_body_in_store_eq)

lemma MetadataTables_body_in_store_eq:
  "MetadataTables_body_in_store M aa ar ae ai st x h
     = (MetadataTables_body M (h aa) (h ar) (h ae) (h ai) st x, h)"
  by (simp add: MetadataTables_body_in_store_def MetadataTables_body_def sbind_def spure_def
      attach_in_store_eq ebind_def split: sum.splits prod.splits)

lemma MetadataTables_in_store_eq:
  "MetadataTables_in_store M b a r e i h
     = Some (MetadataTables M (h b) (h a) (h r) (h e) (h i), h)"
  by (simp add: MetadataTables_in_store_def MetadataTables_def MetadataTables_loop_def
      for_in_eq [where pbody = "MetadataTables_body M (h a) (h r) (h e) (h i)"]
      MetadataTables_body_in_store_eq)

lemma MetadataColumns_body_in_store_eq:
  "MetadataColumns_body_in_store M ar ae st x h = (MetadataColumns_body M (h ar) (h ae) st x, h)"
  by (simp add: MetadataColumns_body_in_store_def MetadataColumns_body_def sbind_def spure_def
      attach_in_store_eq ebind_def split: sum.splits prod.splits)

lemma MetadataColumns_in_store_eq:
  "MetadataColumns_in_store M b r e h = Some (MetadataColumns M (h b) (h r) (h e), h)"
  by (simp add: MetadataColumns_in_store_def MetadataColumns_def MetadataColumns_loop_def
      for_in_eq [where pbody = "MetadataColumns_body M (h r) (h e)"]
      MetadataColumns_body_in_store_eq)

text \<open>
  C9. The argument lists of an aligner are list objects in a store, which the aligner
  reads with \<open>len\<close>, by index and by iteration; its cursors and its output are created
  anew in every run. Two runs one after the other on the same list objects, the second in
  the store that the first has left, both end, and with the same outcome: the same
  exception, or lists of merged objects that are equal field for field. The store after
  the two runs is the store before them: no run changes an argument list, also when one
  list object is passed for several arguments.
\<close>

theorem aligner_runs_agree:
  "twice (MetadataSchemas_in_store M sb sr se) h
     = Some (MetadataSchemas M (h sb) (h sr) (h se),
             MetadataSchemas M (h sb) (h sr) (h se), h) \<and>
   twice (MetadataTables_in_store M tb ta tr te ti) h
     = Some (MetadataTables M (h tb) (h ta) (h tr) (h te) (h ti),
             MetadataTables M (h tb) (h ta) (h tr) (h te) (h ti), h) \<and>
   twice (MetadataColumns_in_store M cb cr ce) h
     = Some (MetadataColumns M (h cb) (h cr) (h ce),
             MetadataColumns M (h cb) (h cr) (h ce), h)"
  by (simp add: twice_def MetadataSchemas_in_store_eq MetadataTables_in_store_eq
      MetadataColumns_in_store_eq)

theorem aligner_runs_agree_witness:
  "twice (MetadataTables_in_store example_models 0 1 2 3 4) example_store
     = Some (Inr [example_table_orders, example_table_totals],
             Inr [example_table_orders, example_table_totals], example_store)"
proof -
  have "MetadataTables example_models (example_store 0) (example_store 1) (example_store 2)
      (example_store 3) (example_store 4) = Inr [example_table_orders, example_table_totals]"
    by (simp add: example_store_def MetadataTables_def example_tables_runs)
  with aligner_runs_agree [where M = example_models and h = example_store
      and tb = 0 and ta = 1 and tr = 2 and te = 3 and ti = 4, THEN conjunct2, THEN conjunct1]
  show ?thesis by simp
qed

end
